theory Spec2Isabelle
  imports Main "HOL-Library.AList" "HOL-Library.Sublist"
begin

section \<open>Python values, exceptions and string operations\<close>

text \<open>
  The exceptions that the code of \<^verbatim>\<open>itrk/data.py\<close> can raise, as values.  A function
  that can raise returns \<open>error + 'a\<close>, with \<open>Inl\<close> for the exception.
\<close>

datatype error =
    ValueError
  | KeyError string
  | TypeError
  | AttributeError
  | YAMLError
  | FileNotFoundError
  | FileExistsError
  | IsADirectoryError
  | NotADirectoryError

text \<open>
  The Python objects a YAML document can denote.  Floats, timestamps, binary data and
  sets, which the YAML loader can also build, are left out of the model.  A dictionary
  is an association list; a key is looked up at its first entry.
\<close>

datatype pyval =
    PNone
  | PBool bool
  | PInt int
  | PStr string
  | PList "pyval list"
  | PDict "(pyval \<times> pyval) list"

text \<open>
  A character is a byte here, so a string is Python text restricted to the code points
  below 256.  \<open>isspace\<close> is \<^verbatim>\<open>str.isspace\<close> on these code points: the characters that
  \<^verbatim>\<open>str.strip()\<close> removes.
\<close>

definition isspace :: "char \<Rightarrow> bool" where
  "isspace c =
     (let n = (of_char c :: nat)
      in (9 \<le> n \<and> n \<le> 13) \<or> (28 \<le> n \<and> n \<le> 32) \<or> n = 133 \<or> n = 160)"

definition py_strip :: "string \<Rightarrow> string" where
  "py_strip s = rev (dropWhile isspace (rev (dropWhile isspace s)))"

text \<open>
  \<^verbatim>\<open>s.split(sep, maxsplit)\<close> for a non-empty separator: the text is cut at the leftmost
  occurrences of the separator, at most \<open>maxsplit\<close> times.  \<open>split_once\<close> cuts at the
  first occurrence.
\<close>

fun split_once :: "string \<Rightarrow> string \<Rightarrow> (string \<times> string) option" where
  "split_once sep [] = None"
| "split_once sep (c # cs) =
     (if take (length sep) (c # cs) = sep then Some ([], drop (length sep) (c # cs))
      else (case split_once sep cs of
              None \<Rightarrow> None
            | Some (a, b) \<Rightarrow> Some (c # a, b)))"

fun py_split :: "string \<Rightarrow> nat \<Rightarrow> string \<Rightarrow> string list" where
  "py_split sep 0 s = [s]"
| "py_split sep (Suc n) s =
     (case split_once sep s of
        None \<Rightarrow> [s]
      | Some (a, b) \<Rightarrow> a # py_split sep n b)"

definition endswith :: "string \<Rightarrow> string \<Rightarrow> bool" where
  "endswith s ending = (length ending \<le> length s \<and> drop (length s - length ending) s = ending)"

text \<open>\<^verbatim>\<open>str(n)\<close> for an integer: its decimal digits, with a minus sign when negative.\<close>

definition digit_char :: "int \<Rightarrow> char" where
  "digit_char d = char_of (48 + d)"

function str_digits :: "int \<Rightarrow> string" where
  "str_digits n =
     (if n < 10 then [digit_char n] else str_digits (n div 10) @ [digit_char (n mod 10)])"
  by pat_completeness auto
termination
  by (relation "measure nat") auto

declare str_digits.simps [simp del]

definition str_int :: "int \<Rightarrow> string" where
  "str_int i = (if i < 0 then CHR ''-'' # str_digits (- i) else str_digits i)"

text \<open>
  \<^verbatim>\<open>int(x)\<close>.  On text: \<^verbatim>\<open>int\<close> skips whitespace before and after the number, allows one
  sign, and wants decimal digits for the rest, where single underscores may stand
  between digits; anything else raises ValueError.  The whitespace it skips is that of
  C (tab, the line breaks \<^verbatim>\<open>\n\<close>, \<^verbatim>\<open>\v\<close>, \<^verbatim>\<open>\f\<close>, \<^verbatim>\<open>\r\<close>, and the space) and the two
  spaces above code point 127, which it turns into spaces first; the separators 0x1C
  to 0x1F, which \<^verbatim>\<open>str.strip\<close> removes, it does not skip.  On \<^verbatim>\<open>None\<close>, a list or a
  dictionary \<^verbatim>\<open>int\<close> raises TypeError.  (The limit on the number of digits of recent
  Python versions is left out.)
\<close>

definition int_isspace :: "char \<Rightarrow> bool" where
  "int_isspace c =
     (let n = (of_char c :: nat)
      in (9 \<le> n \<and> n \<le> 13) \<or> n = 32 \<or> n = 133 \<or> n = 160)"

definition int_strip :: "string \<Rightarrow> string" where
  "int_strip s = rev (dropWhile int_isspace (rev (dropWhile int_isspace s)))"

definition isdigit :: "char \<Rightarrow> bool" where
  "isdigit c = (let n = (of_char c :: nat) in 48 \<le> n \<and> n \<le> 57)"

fun digits_ok :: "string \<Rightarrow> bool" where
  "digits_ok [] = False"
| "digits_ok [c] = isdigit c"
| "digits_ok (c # d # cs) =
     (isdigit c \<and> (if d = CHR ''_'' then digits_ok cs else digits_ok (d # cs)))"

definition digits_value :: "string \<Rightarrow> int" where
  "digits_value s =
     foldl (\<lambda>acc c. acc * 10 + (of_char c - 48)) 0 (filter (\<lambda>c. c \<noteq> CHR ''_'') s)"

definition int_of_str :: "string \<Rightarrow> error + int" where
  "int_of_str s =
     (let t = int_strip s;
          neg = (t \<noteq> [] \<and> hd t = CHR ''-'');
          body = (if t \<noteq> [] \<and> (hd t = CHR ''-'' \<or> hd t = CHR ''+'') then tl t else t)
      in if digits_ok body
         then Inr (if neg then - digits_value body else digits_value body)
         else Inl ValueError)"

fun py_int :: "pyval \<Rightarrow> error + int" where
  "py_int (PInt n) = Inr n"
| "py_int (PBool b) = Inr (if b then 1 else 0)"
| "py_int (PStr s) = int_of_str s"
| "py_int PNone = Inl TypeError"
| "py_int (PList xs) = Inl TypeError"
| "py_int (PDict kvs) = Inl TypeError"

text \<open>
  \<^verbatim>\<open>metadata[key]\<close> and \<^verbatim>\<open>metadata.get(key, default)\<close> for a text key.  Subscripting
  anything but a dictionary with a text key raises TypeError; a missing key raises
  KeyError.  Only dictionaries have \<^verbatim>\<open>get\<close>.
\<close>

fun getitem :: "pyval \<Rightarrow> string \<Rightarrow> error + pyval" where
  "getitem (PDict kvs) k =
     (case map_of kvs (PStr k) of None \<Rightarrow> Inl (KeyError k) | Some v \<Rightarrow> Inr v)"
| "getitem PNone k = Inl TypeError"
| "getitem (PBool b) k = Inl TypeError"
| "getitem (PInt n) k = Inl TypeError"
| "getitem (PStr s) k = Inl TypeError"
| "getitem (PList xs) k = Inl TypeError"

fun dict_get :: "pyval \<Rightarrow> string \<Rightarrow> pyval \<Rightarrow> error + pyval" where
  "dict_get (PDict kvs) k d =
     Inr (case map_of kvs (PStr k) of None \<Rightarrow> d | Some v \<Rightarrow> v)"
| "dict_get PNone k d = Inl AttributeError"
| "dict_get (PBool b) k d = Inl AttributeError"
| "dict_get (PInt n) k d = Inl AttributeError"
| "dict_get (PStr s) k d = Inl AttributeError"
| "dict_get (PList xs) k d = Inl AttributeError"

section \<open>The YAML library\<close>

text \<open>
  \<^verbatim>\<open>yaml.dump\<close> and \<^verbatim>\<open>yaml.safe_load\<close> belong to a library outside the repository.
  The code is modelled over any behaviour of the two: \<open>dump\<close> gives the text of a value
  (the call in \<^verbatim>\<open>to_markdown\<close> passes \<^verbatim>\<open>default_flow_style=False\<close>), and \<open>safe_load\<close>
  gives the value of a text, or \<open>None\<close> when the parser raises its error.
\<close>

record yaml =
  dump :: "pyval \<Rightarrow> string"
  safe_load :: "string \<Rightarrow> pyval option"

section \<open>The file system\<close>

text \<open>
  A path is the list of its components, and the file system an association list from
  paths to nodes; the empty path is the root directory.  A file holds its text.
  Permissions, links and text encodings are left out.  \<^verbatim>\<open>os.listdir\<close> returns the
  names of a directory in an order of its own; the order of the association list
  stands for it.
\<close>

type_synonym path = "string list"

datatype node = Dir | File string

type_synonym filesystem = "(path \<times> node) list"

definition lookup :: "filesystem \<Rightarrow> path \<Rightarrow> node option" where
  "lookup fs p = (if p = [] then Some Dir else map_of fs p)"

definition os_path_exists :: "filesystem \<Rightarrow> path \<Rightarrow> bool" where
  "os_path_exists fs p = (lookup fs p \<noteq> None)"

definition os_path_join :: "path \<Rightarrow> string \<Rightarrow> path" where
  "os_path_join d name = d @ [name]"

definition os_listdir :: "filesystem \<Rightarrow> path \<Rightarrow> error + string list" where
  "os_listdir fs d =
     (case lookup fs d of
        None \<Rightarrow> Inl FileNotFoundError
      | Some (File t) \<Rightarrow> Inl NotADirectoryError
      | Some Dir \<Rightarrow> Inr (remdups (map last (filter (\<lambda>p. p \<noteq> [] \<and> butlast p = d) (map fst fs)))))"

definition os_mkdir :: "filesystem \<Rightarrow> path \<Rightarrow> error + filesystem" where
  "os_mkdir fs p =
     (if lookup fs p \<noteq> None then Inl FileExistsError
      else (case lookup fs (butlast p) of
              None \<Rightarrow> Inl FileNotFoundError
            | Some (File t) \<Rightarrow> Inl NotADirectoryError
            | Some Dir \<Rightarrow> Inr (AList.update p Dir fs)))"

text \<open>
  \<^verbatim>\<open>os.makedirs(name)\<close>: when the parent is missing it is made first, with its own
  missing parents, and then the directory itself.
\<close>

function os_makedirs :: "filesystem \<Rightarrow> path \<Rightarrow> error + filesystem" where
  "os_makedirs fs p =
     (if p \<noteq> [] \<and> butlast p \<noteq> [] \<and> \<not> os_path_exists fs (butlast p)
      then (case os_makedirs fs (butlast p) of
              Inl e \<Rightarrow> (if e = FileExistsError then os_mkdir fs p else Inl e)
            | Inr fs' \<Rightarrow> os_mkdir fs' p)
      else os_mkdir fs p)"
  by pat_completeness auto
termination
  by (relation "measure (\<lambda>(fs, p). length p)") auto

declare os_makedirs.simps [simp del]

text \<open>
  Reading a file opened in text mode turns every \<^verbatim>\<open>\r\n\<close> and every lone \<^verbatim>\<open>\r\<close> into
  \<^verbatim>\<open>\n\<close> (universal newlines); writing stores the text as it is.
\<close>

fun universal_newlines :: "string \<Rightarrow> string" where
  "universal_newlines [] = []"
| "universal_newlines [c] = (if c = CHR 0x0D then [CHR 0x0A] else [c])"
| "universal_newlines (c # d # cs) =
     (if c = CHR 0x0D \<and> d = CHR 0x0A then CHR 0x0A # universal_newlines cs
      else if c = CHR 0x0D then CHR 0x0A # universal_newlines (d # cs)
      else c # universal_newlines (d # cs))"

definition open_read :: "filesystem \<Rightarrow> path \<Rightarrow> error + string" where
  "open_read fs p =
     (case lookup fs p of
        None \<Rightarrow> Inl FileNotFoundError
      | Some Dir \<Rightarrow> Inl IsADirectoryError
      | Some (File t) \<Rightarrow> Inr (universal_newlines t))"

definition open_write :: "filesystem \<Rightarrow> path \<Rightarrow> string \<Rightarrow> error + filesystem" where
  "open_write fs p t =
     (case lookup fs p of
        Some Dir \<Rightarrow> Inl IsADirectoryError
      | Some (File old) \<Rightarrow> Inr (AList.update p (File t) fs)
      | None \<Rightarrow>
          (case lookup fs (butlast p) of
             None \<Rightarrow> Inl FileNotFoundError
           | Some (File u) \<Rightarrow> Inl NotADirectoryError
           | Some Dir \<Rightarrow> Inr (AList.update p (File t) fs)))"

definition os_remove :: "filesystem \<Rightarrow> path \<Rightarrow> error + filesystem" where
  "os_remove fs p =
     (case lookup fs p of
        None \<Rightarrow> Inl FileNotFoundError
      | Some Dir \<Rightarrow> Inl IsADirectoryError
      | Some (File t) \<Rightarrow> Inr (AList.delete p fs))"

section \<open>The class Idea\<close>

text \<open>
  The field \<open>id\<close> of the source is \<open>id'\<close> here.  \<^verbatim>\<open>from_markdown\<close> stores the title
  and the tags as the YAML loader gives them, without a check of their type, so both
  fields hold Python values.
\<close>

record Idea =
  id' :: int
  title :: pyval
  modified :: int
  tags :: pyval
  content :: string

text \<open>
  \<open>from_markdown_text\<close> is \<^verbatim>\<open>from_markdown\<close> from the text read on: the split at the
  first two \<^verbatim>\<open>---\<close>, the unpacking into two names (ValueError unless the split gave
  three parts), the YAML parse and the construction of the Idea, its arguments
  evaluated in their order.
\<close>

definition from_markdown_text :: "yaml \<Rightarrow> string \<Rightarrow> error + Idea" where
  "from_markdown_text Y text =
     (case tl (py_split ''---'' 2 text) of
        [metadata, body] \<Rightarrow>
          (case safe_load Y metadata of
             None \<Rightarrow> Inl YAMLError
           | Some md \<Rightarrow>
               (case getitem md ''id'' of Inl e \<Rightarrow> Inl e | Inr i \<Rightarrow>
               (case py_int i of Inl e \<Rightarrow> Inl e | Inr i' \<Rightarrow>
               (case getitem md ''title'' of Inl e \<Rightarrow> Inl e | Inr t \<Rightarrow>
               (case getitem md ''modified'' of Inl e \<Rightarrow> Inl e | Inr m \<Rightarrow>
               (case py_int m of Inl e \<Rightarrow> Inl e | Inr m' \<Rightarrow>
               (case dict_get md ''tags'' (PList []) of Inl e \<Rightarrow> Inl e | Inr g \<Rightarrow>
                  Inr \<lparr>id' = i', title = t, modified = m', tags = g,
                       content = py_strip body\<rparr>)))))))
      | _ \<Rightarrow> Inl ValueError)"

definition from_markdown :: "yaml \<Rightarrow> filesystem \<Rightarrow> path \<Rightarrow> error + Idea" where
  "from_markdown Y fs file_path =
     (case open_read fs file_path of
        Inl e \<Rightarrow> Inl e
      | Inr text \<Rightarrow> from_markdown_text Y text)"

definition to_markdown :: "yaml \<Rightarrow> Idea \<Rightarrow> string" where
  "to_markdown Y self =
     (let metadata = PDict [(PStr ''id'', PInt (id' self)),
                            (PStr ''title'', title self),
                            (PStr ''modified'', PInt (modified self)),
                            (PStr ''tags'', tags self)];
          yaml_metadata = py_strip (dump Y metadata)
      in ''---\<newline>'' @ yaml_metadata @ ''\<newline>---\<newline>\<newline>'' @ content self)"

section \<open>The class IdeaManager\<close>

record IdeaManager =
  directory :: path

definition IdeaManager_init :: "filesystem \<Rightarrow> path \<Rightarrow> error + (IdeaManager \<times> filesystem)" where
  "IdeaManager_init fs dir =
     (if \<not> os_path_exists fs dir
      then (case os_makedirs fs dir of
              Inl e \<Rightarrow> Inl e
            | Inr fs' \<Rightarrow> Inr (\<lparr>directory = dir\<rparr>, fs'))
      else Inr (\<lparr>directory = dir\<rparr>, fs))"

definition get_idea_file_path :: "IdeaManager \<Rightarrow> int \<Rightarrow> path" where
  "get_idea_file_path self idea_id =
     os_path_join (directory self) (''idea'' @ str_int idea_id @ ''.md'')"

text \<open>
  The clock is what \<^verbatim>\<open>datetime.now()\<close> returns, passed to the operations that read it.
  \<^verbatim>\<open>generate_timestamp\<close> formats it as \<^verbatim>\<open>%y%m%d%H%M%S\<close>, two digits a field, and
  reads the twelve digits as a number.  For the fields of a datetime (a month from 1 to
  12, a day from 1 to 31, an hour below 24, a minute and a second below 60) that number
  is the one below; the year counts with its last two digits only.
\<close>

record datetime =
  year :: int
  month :: int
  day :: int
  hour :: int
  minute :: int
  second :: int
  microsecond :: int

definition generate_timestamp :: "datetime \<Rightarrow> int" where
  "generate_timestamp now =
     ((((year now mod 100 * 100 + month now) * 100 + day now) * 100 + hour now) * 100
        + minute now) * 100 + second now"

text \<open>
  The values a datetime can have, and the order of two clock readings, as Python
  compares them: \<open>later a b\<close> says that \<open>b\<close> is a later reading than \<open>a\<close>,
  \<open>later_second a b\<close> that \<open>b\<close> lies in a later second than \<open>a\<close>.  Two readings are
  of the same century when their years agree but for the last two digits.
\<close>

definition valid_datetime :: "datetime \<Rightarrow> bool" where
  "valid_datetime d =
     (1 \<le> year d \<and> year d \<le> 9999 \<and> 1 \<le> month d \<and> month d \<le> 12 \<and> 1 \<le> day d \<and> day d \<le> 31
      \<and> 0 \<le> hour d \<and> hour d \<le> 23 \<and> 0 \<le> minute d \<and> minute d \<le> 59
      \<and> 0 \<le> second d \<and> second d \<le> 59 \<and> 0 \<le> microsecond d \<and> microsecond d \<le> 999999)"

fun lex_less :: "int list \<Rightarrow> int list \<Rightarrow> bool" where
  "lex_less (x # xs) (y # ys) = (x < y \<or> (x = y \<and> lex_less xs ys))"
| "lex_less xs ys = False"

definition to_second :: "datetime \<Rightarrow> int list" where
  "to_second d = [year d, month d, day d, hour d, minute d, second d]"

definition later_second :: "datetime \<Rightarrow> datetime \<Rightarrow> bool" where
  "later_second a b = lex_less (to_second a) (to_second b)"

definition later :: "datetime \<Rightarrow> datetime \<Rightarrow> bool" where
  "later a b = lex_less (to_second a @ [microsecond a]) (to_second b @ [microsecond b])"

definition same_century :: "datetime \<Rightarrow> datetime \<Rightarrow> bool" where
  "same_century a b = (year a div 100 = year b div 100)"

fun load_loop :: "yaml \<Rightarrow> filesystem \<Rightarrow> path \<Rightarrow> string list \<Rightarrow> Idea list \<Rightarrow> error + Idea list" where
  "load_loop Y fs dir [] ideas = Inr ideas"
| "load_loop Y fs dir (file_name # rest) ideas =
     (if endswith file_name ''.md''
      then (case from_markdown Y fs (os_path_join dir file_name) of
              Inl e \<Rightarrow> Inl e
            | Inr idea \<Rightarrow> load_loop Y fs dir rest (ideas @ [idea]))
      else load_loop Y fs dir rest ideas)"

definition load_all_ideas :: "yaml \<Rightarrow> IdeaManager \<Rightarrow> filesystem \<Rightarrow> error + Idea list" where
  "load_all_ideas Y self fs =
     (case os_listdir fs (directory self) of
        Inl e \<Rightarrow> Inl e
      | Inr names \<Rightarrow> load_loop Y fs (directory self) names [])"

definition load_idea_by_id :: "yaml \<Rightarrow> IdeaManager \<Rightarrow> filesystem \<Rightarrow> int \<Rightarrow> error + Idea option" where
  "load_idea_by_id Y self fs idea_id =
     (let file_path = get_idea_file_path self idea_id
      in if os_path_exists fs file_path
         then (case from_markdown Y fs file_path of
                 Inl e \<Rightarrow> Inl e
               | Inr idea \<Rightarrow> Inr (Some idea))
         else Inr None)"

definition save_idea :: "yaml \<Rightarrow> IdeaManager \<Rightarrow> Idea \<Rightarrow> filesystem \<Rightarrow> error + filesystem" where
  "save_idea Y self idea fs =
     open_write fs (get_idea_file_path self (id' idea)) (to_markdown Y idea)"

definition create_new_idea ::
  "yaml \<Rightarrow> IdeaManager \<Rightarrow> datetime \<Rightarrow> string \<Rightarrow> string list \<Rightarrow> string \<Rightarrow> filesystem
     \<Rightarrow> error + (Idea \<times> filesystem)" where
  "create_new_idea Y self now title_arg tags_arg content_arg fs =
     (let new_id = generate_timestamp now;
          new_idea = \<lparr>id' = new_id, title = PStr title_arg, modified = new_id,
                      tags = PList (map PStr tags_arg), content = content_arg\<rparr>
      in case save_idea Y self new_idea fs of
           Inl e \<Rightarrow> Inl e
         | Inr fs' \<Rightarrow> Inr (new_idea, fs'))"

text \<open>
  The assignments of \<^verbatim>\<open>update_idea\<close> between the load and the save.  An argument left
  out is \<open>None\<close>.  The title and the content are tested for truth (\<^verbatim>\<open>if title:\<close>), the
  tags for \<^verbatim>\<open>is not None\<close>.
\<close>

definition update_fields ::
  "string option \<Rightarrow> string list option \<Rightarrow> string option \<Rightarrow> int \<Rightarrow> Idea \<Rightarrow> Idea" where
  "update_fields title_arg tags_arg content_arg stamp idea =
     (let idea1 = (case title_arg of
                     Some t \<Rightarrow> (if t \<noteq> [] then idea\<lparr>title := PStr t\<rparr> else idea)
                   | None \<Rightarrow> idea);
          idea2 = (case tags_arg of
                     Some g \<Rightarrow> idea1\<lparr>tags := PList (map PStr g)\<rparr>
                   | None \<Rightarrow> idea1);
          idea3 = (case content_arg of
                     Some c \<Rightarrow> (if c \<noteq> [] then idea2\<lparr>content := c\<rparr> else idea2)
                   | None \<Rightarrow> idea2)
      in idea3\<lparr>modified := stamp\<rparr>)"

definition update_idea ::
  "yaml \<Rightarrow> IdeaManager \<Rightarrow> datetime \<Rightarrow> int \<Rightarrow> string option \<Rightarrow> string list option
     \<Rightarrow> string option \<Rightarrow> filesystem \<Rightarrow> error + (bool \<times> filesystem)" where
  "update_idea Y self now idea_id title_arg tags_arg content_arg fs =
     (case load_idea_by_id Y self fs idea_id of
        Inl e \<Rightarrow> Inl e
      | Inr None \<Rightarrow> Inr (False, fs)
      | Inr (Some idea) \<Rightarrow>
          (case save_idea Y self
                  (update_fields title_arg tags_arg content_arg (generate_timestamp now) idea) fs of
             Inl e \<Rightarrow> Inl e
           | Inr fs' \<Rightarrow> Inr (True, fs')))"

definition delete_idea :: "IdeaManager \<Rightarrow> int \<Rightarrow> filesystem \<Rightarrow> error + (bool \<times> filesystem)" where
  "delete_idea self idea_id fs =
     (let file_path = get_idea_file_path self idea_id
      in if os_path_exists fs file_path
         then (case os_remove fs file_path of
                 Inl e \<Rightarrow> Inl e
               | Inr fs' \<Rightarrow> Inr (True, fs'))
         else Inr (False, fs))"

section \<open>A fragment of the YAML library, for concrete stores\<close>

text \<open>
  To run the code on concrete files, \<open>pyyaml\<close> gives the library's behaviour on the
  documents the examples below use: a block mapping with distinct keys that are plain
  words, whose values are decimal integers without leading zeros, plain text in one
  short line (letters, digits, single spaces and hyphens inside, not a word YAML reads
  as a number, a date, a boolean or null) and lists of such text.  \<open>block_dump\<close>
  writes the keys in sorted order, a scalar after its key, an empty list as \<^verbatim>\<open>[]\<close> and
  the items of a list on lines of their own after \<^verbatim>\<open>- \<close>; \<open>block_load\<close> reads such
  lines back, and a single line without a key as a scalar.  Outside these documents
  \<open>pyyaml\<close> is not the library: the library quotes text that it would otherwise read
  as another value, folds long lines, reads octal numbers, flow lists, top-level lists
  and nested blocks, and keeps the last of two equal keys.  Nothing below applies
  \<open>pyyaml\<close> to such a document.  The theorems that hold for every behaviour of the
  library are stated over an arbitrary \<open>Y\<close>.
\<close>

fun str_less :: "string \<Rightarrow> string \<Rightarrow> bool" where
  "str_less [] [] = False"
| "str_less [] (d # ds) = True"
| "str_less (c # cs) [] = False"
| "str_less (c # cs) (d # ds) =
     ((of_char c :: nat) < of_char d \<or> (c = d \<and> str_less cs ds))"

fun key_less :: "pyval \<Rightarrow> pyval \<Rightarrow> bool" where
  "key_less (PStr a) (PStr b) = str_less a b"
| "key_less a b = False"

fun insert_item :: "pyval \<times> pyval \<Rightarrow> (pyval \<times> pyval) list \<Rightarrow> (pyval \<times> pyval) list" where
  "insert_item x [] = [x]"
| "insert_item x (y # ys) =
     (if key_less (fst x) (fst y) then x # y # ys else y # insert_item x ys)"

definition sort_items :: "(pyval \<times> pyval) list \<Rightarrow> (pyval \<times> pyval) list" where
  "sort_items kvs = foldr insert_item kvs []"

fun dump_scalar :: "pyval \<Rightarrow> string" where
  "dump_scalar PNone = ''null''"
| "dump_scalar (PBool b) = (if b then ''true'' else ''false'')"
| "dump_scalar (PInt n) = str_int n"
| "dump_scalar (PStr s) = s"
| "dump_scalar (PList xs) = ''[]''"
| "dump_scalar (PDict kvs) = ''{}''"

fun dump_value :: "pyval \<Rightarrow> string" where
  "dump_value (PList (x # xs)) =
     ''\<newline>'' @ concat (map (\<lambda>v. ''- '' @ dump_scalar v @ ''\<newline>'') (x # xs))"
| "dump_value v = '' '' @ dump_scalar v @ ''\<newline>''"

fun block_dump :: "pyval \<Rightarrow> string" where
  "block_dump (PDict (kv # kvs)) =
     concat (map (\<lambda>(k, v). dump_scalar k @ '':'' @ dump_value v) (sort_items (kv # kvs)))"
| "block_dump (PDict []) = ''{}\<newline>''"
| "block_dump (PList xs) = (if xs = [] then ''[]\<newline>'' else concat (map (\<lambda>v. ''- '' @ dump_scalar v @ ''\<newline>'') xs))"
| "block_dump v = dump_scalar v @ ''\<newline>...\<newline>''"

definition plain_int :: "string \<Rightarrow> bool" where
  "plain_int s =
     (let body = (if s \<noteq> [] \<and> (hd s = CHR ''-'' \<or> hd s = CHR ''+'') then tl s else s)
      in body \<noteq> [] \<and> list_all isdigit body \<and> (body = ''0'' \<or> hd body \<noteq> CHR ''0''))"

definition load_scalar :: "string \<Rightarrow> pyval" where
  "load_scalar s =
     (let t = py_strip s
      in if t = ''[]'' then PList []
         else if t = ''{}'' then PDict []
         else if t \<in> set ['''', ''~'', ''null'', ''Null'', ''NULL''] then PNone
         else if t \<in> set [''yes'', ''Yes'', ''YES'', ''true'', ''True'', ''TRUE'', ''on'', ''On'', ''ON'']
           then PBool True
         else if t \<in> set [''no'', ''No'', ''NO'', ''false'', ''False'', ''FALSE'', ''off'', ''Off'', ''OFF'']
           then PBool False
         else if plain_int t then (case int_of_str t of Inr n \<Rightarrow> PInt n | Inl e \<Rightarrow> PStr t)
         else PStr t)"

fun load_lines :: "string list \<Rightarrow> (pyval \<times> pyval) list \<Rightarrow> (pyval \<times> pyval) list option" where
  "load_lines [] acc = Some (rev acc)"
| "load_lines (l # ls) acc =
     (if py_strip l = [] then load_lines ls acc
      else if take 2 l = ''- '' then
        (case acc of
           (k, PNone) # acc' \<Rightarrow> load_lines ls ((k, PList [load_scalar (drop 2 l)]) # acc')
         | (k, PList (x # xs)) # acc' \<Rightarrow>
             load_lines ls ((k, PList (x # xs @ [load_scalar (drop 2 l)])) # acc')
         | _ \<Rightarrow> None)
      else (case split_once '': '' l of
              Some (k, v) \<Rightarrow> load_lines ls ((PStr k, load_scalar v) # acc)
            | None \<Rightarrow>
                (if endswith l '':'' then load_lines ls ((PStr (butlast l), PNone) # acc)
                 else None)))"

fun split_lines :: "string \<Rightarrow> string list" where
  "split_lines [] = [[]]"
| "split_lines (c # cs) =
     (if c = CHR 0x0A then [] # split_lines cs
      else (case split_lines cs of l # ls \<Rightarrow> (c # l) # ls | [] \<Rightarrow> [[c]]))"

definition block_load :: "string \<Rightarrow> pyval option" where
  "block_load s =
     (case filter (\<lambda>l. py_strip l \<noteq> []) (split_lines s) of
        [] \<Rightarrow> Some PNone
      | [l] \<Rightarrow>
          (if split_once '': '' l = None \<and> \<not> endswith l '':'' \<and> take 2 l \<noteq> ''- ''
           then Some (load_scalar l)
           else map_option PDict (load_lines [l] []))
      | ls \<Rightarrow> map_option PDict (load_lines ls []))"

definition pyyaml :: yaml where
  "pyyaml = \<lparr>dump = block_dump, safe_load = block_load\<rparr>"


section \<open>A concrete store\<close>

definition manager :: IdeaManager where
  "manager = \<lparr>directory = [''notes'']\<rparr>"

definition idea1 :: Idea where
  "idea1 = \<lparr>id' = 241025154736, title = PStr ''My First Idea'', modified = 241025154736,
             tags = PList [PStr ''python'', PStr ''markdown''], content = ''A description.''\<rparr>"

definition store1 :: filesystem where
  "store1 = [([''notes''], Dir),
             ([''notes'', ''idea241025154736.md''], File (to_markdown pyyaml idea1))]"

definition clock1 :: datetime where
  "clock1 = \<lparr>year = 2024, month = 10, day = 26, hour = 9, minute = 30, second = 0,
              microsecond = 0\<rparr>"

definition store1_cleared :: filesystem where
  "store1_cleared =
     [([''notes''], Dir),
      ([''notes'', ''idea241025154736.md''],
       File ''---\<newline>id: 241025154736\<newline>modified: 241026093000\<newline>tags: []\<newline>title: My First Idea\<newline>---\<newline>\<newline>A description.'')]"

section \<open>Texts for the parser\<close>


section \<open>Shapes of the file system\<close>

text \<open>
  In a file system every entry lies in a directory: \<open>well_formed\<close>.  \<open>no_file_above\<close>
  says that no proper ancestor of a path is a regular file.
\<close>

definition well_formed :: "filesystem \<Rightarrow> bool" where
  "well_formed fs = list_all (\<lambda>p. lookup fs (butlast p) = Some Dir) (map fst fs)"

definition no_file_above :: "filesystem \<Rightarrow> path \<Rightarrow> bool" where
  "no_file_above fs p =
     list_all (\<lambda>q. case lookup fs q of Some (File t) \<Rightarrow> False | _ \<Rightarrow> True) (prefixes (butlast p))"

definition file_at_notes :: filesystem where
  "file_at_notes = [([''notes''], File ''shopping list'')]"

definition home_only :: filesystem where
  "home_only = [([''home''], Dir)]"

section \<open>The naming convention and the listing, in the words of the specification\<close>

text \<open>
  The names that \<^verbatim>\<open>_get_idea_file_path\<close> builds: \<^verbatim>\<open>idea\<close>, the decimal text of an
  integer as \<^verbatim>\<open>str\<close> writes it, and \<^verbatim>\<open>.md\<close>.
\<close>

definition decimal_text :: "string \<Rightarrow> bool" where
  "decimal_text s =
     (let body = (if s \<noteq> [] \<and> hd s = CHR ''-'' then tl s else s)
      in body \<noteq> [] \<and> list_all isdigit body \<and> (body = ''0'' \<or> hd body \<noteq> CHR ''0''))"

definition idea_file_name :: "string \<Rightarrow> bool" where
  "idea_file_name name =
     (7 \<le> length name \<and> take 4 name = ''idea'' \<and> endswith name ''.md''
      \<and> decimal_text (take (length name - 7) (drop 4 name)))"

text \<open>
  \<open>collect\<close> gathers the results of parsing a list of files: the records in order, or
  the first exception.
\<close>

fun collect :: "(error + 'a) list \<Rightarrow> error + 'a list" where
  "collect [] = Inr []"
| "collect (r # rs) =
     (case r of
        Inl e \<Rightarrow> Inl e
      | Inr x \<Rightarrow> (case collect rs of Inl e \<Rightarrow> Inl e | Inr xs \<Rightarrow> Inr (x # xs)))"

definition idea2 :: Idea where
  "idea2 = \<lparr>id' = 7, title = PStr ''Groceries'', modified = 8, tags = PList [],
             content = ''Milk''\<rparr>"

definition store2 :: filesystem where
  "store2 = [([''notes''], Dir),
             ([''notes'', ''idea241025154736.md''], File (to_markdown pyyaml idea1)),
             ([''notes'', ''todo.md''], File (to_markdown pyyaml idea2)),
             ([''notes'', ''readme.txt''], File ''not an idea'')]"

section \<open>Clock readings and stores for the examples\<close>

definition clock0 :: datetime where
  "clock0 = \<lparr>year = 2024, month = 10, day = 25, hour = 15, minute = 47, second = 36,
              microsecond = 0\<rparr>"

definition store0 :: filesystem where
  "store0 = [([''notes''], Dir)]"

definition created_T :: Idea where
  "created_T = \<lparr>id' = 241025154736, title = PStr ''T'', modified = 241025154736,
                 tags = PList [PStr ''a''], content = ''C''\<rparr>"

definition store_T :: filesystem where
  "store_T =
     [([''notes''], Dir),
      ([''notes'', ''idea241025154736.md''],
       File ''---\<newline>id: 241025154736\<newline>modified: 241025154736\<newline>tags:\<newline>- a\<newline>title: T\<newline>---\<newline>\<newline>C'')]"

definition marked :: Idea where
  "marked = \<lparr>id' = 241025154736, title = PStr ''a---b'', modified = 241025154736,
              tags = PList [], content = ''C''\<rparr>"

definition store_marked :: filesystem where
  "store_marked =
     [([''notes''], Dir),
      ([''notes'', ''idea241025154736.md''],
       File ''---\<newline>id: 241025154736\<newline>modified: 241025154736\<newline>tags: []\<newline>title: a---b\<newline>---\<newline>\<newline>C'')]"

section \<open>Later clock readings\<close>

definition clock0_half :: datetime where
  "clock0_half = \<lparr>year = 2024, month = 10, day = 25, hour = 15, minute = 47, second = 36,
                   microsecond = 500000\<rparr>"

definition store_T_renamed :: filesystem where
  "store_T_renamed =
     [([''notes''], Dir),
      ([''notes'', ''idea241025154736.md''],
       File ''---\<newline>id: 241025154736\<newline>modified: 241025154736\<newline>tags:\<newline>- a\<newline>title: New\<newline>---\<newline>\<newline>C'')]"

definition clock_2099 :: datetime where
  "clock_2099 = \<lparr>year = 2099, month = 12, day = 31, hour = 23, minute = 59, second = 59,
                  microsecond = 0\<rparr>"

definition clock_2100 :: datetime where
  "clock_2100 = \<lparr>year = 2100, month = 1, day = 1, hour = 0, minute = 0, second = 0,
                  microsecond = 0\<rparr>"

definition created_2099 :: Idea where
  "created_2099 = \<lparr>id' = 991231235959, title = PStr ''T'', modified = 991231235959,
                    tags = PList [PStr ''a''], content = ''C''\<rparr>"

definition store_2099 :: filesystem where
  "store_2099 =
     [([''notes''], Dir),
      ([''notes'', ''idea991231235959.md''],
       File ''---\<newline>id: 991231235959\<newline>modified: 991231235959\<newline>tags:\<newline>- a\<newline>title: T\<newline>---\<newline>\<newline>C'')]"

definition store_2100 :: filesystem where
  "store_2100 =
     [([''notes''], Dir),
      ([''notes'', ''idea991231235959.md''],
       File ''---\<newline>id: 991231235959\<newline>modified: 101000000\<newline>tags:\<newline>- a\<newline>title: New\<newline>---\<newline>\<newline>C'')]"

section \<open>The marker lines of the specification\<close>




section \<open>The life of a record\<close>

text \<open>
  \<open>reachable Y self now fs idea_id\<close>: the store's operations have brought the file
  system to \<open>fs\<close>, the last of them at the clock reading \<open>now\<close>, and they were a
  successful \<^verbatim>\<open>create_new_idea\<close>, which gave the id, followed by successful calls of
  \<^verbatim>\<open>update_idea\<close> for that id.  Each update works on the file system that the operation
  before it left.  Between two operations the clock does not run backwards and stays
  in its century, and at each update the file of the id loads as a record that carries
  this id.
\<close>

inductive reachable :: "yaml \<Rightarrow> IdeaManager \<Rightarrow> datetime \<Rightarrow> filesystem \<Rightarrow> int \<Rightarrow> bool"
  for Y :: yaml and self :: IdeaManager
where
  created:
    "valid_datetime now
       \<Longrightarrow> create_new_idea Y self now title_arg tags_arg content_arg fs = Inr (idea, fs')
       \<Longrightarrow> reachable Y self now fs' (id' idea)"
| updated:
    "reachable Y self before fs idea_id
       \<Longrightarrow> valid_datetime now
       \<Longrightarrow> same_century before now
       \<Longrightarrow> \<not> later now before
       \<Longrightarrow> load_idea_by_id Y self fs idea_id = Inr (Some loaded)
       \<Longrightarrow> id' loaded = idea_id
       \<Longrightarrow> update_idea Y self now idea_id title_arg tags_arg content_arg fs = Inr (True, fs')
       \<Longrightarrow> reachable Y self now fs' idea_id"

definition store_T_updated :: filesystem where
  "store_T_updated =
     [([''notes''], Dir),
      ([''notes'', ''idea241025154736.md''],
       File ''---\<newline>id: 241025154736\<newline>modified: 241026093000\<newline>tags:\<newline>- a\<newline>title: New\<newline>---\<newline>\<newline>C'')]"

section \<open>Facts about the operations\<close>

subsection \<open>Paths, loads and saves\<close>

lemma py_split_nonempty: "py_split sep n s \<noteq> []"
  by (cases n) (auto split: option.splits)

lemma absent_9999999999999:
  "\<not> os_path_exists store1 (get_idea_file_path manager 9999999999999)"
  by code_simp

lemma load_absent:
  "\<not> os_path_exists fs (get_idea_file_path self idea_id)
     \<Longrightarrow> load_idea_by_id Y self fs idea_id = Inr None"
  by (simp add: load_idea_by_id_def)

lemma get_idea_file_path_nonempty: "get_idea_file_path self idea_id \<noteq> []"
  by (simp add: get_idea_file_path_def os_path_join_def)

lemma lookup_update:
  "p \<noteq> [] \<Longrightarrow> lookup (AList.update p v fs) q = (if q = p then Some v else lookup fs q)"
  by (simp add: lookup_def update_conv')

lemma load_SomeD:
  assumes "load_idea_by_id Y self fs idea_id = Inr (Some idea)"
  shows "\<exists>t. lookup fs (get_idea_file_path self idea_id) = Some (File t)
           \<and> from_markdown_text Y (universal_newlines t) = Inr idea"
  using assms
  by (auto simp: load_idea_by_id_def from_markdown_def open_read_def Let_def
           split: if_splits sum.splits option.splits node.splits)

lemma save_over_file:
  assumes "lookup fs (get_idea_file_path self (id' idea)) = Some (File t)"
  shows "save_idea Y self idea fs
           = Inr (AList.update (get_idea_file_path self (id' idea)) (File (to_markdown Y idea)) fs)"
  using assms by (simp add: save_idea_def open_write_def)

subsection \<open>The assignments of an update\<close>

lemma update_fields_id [simp]: "id' (update_fields t g c stamp idea) = id' idea"
  by (simp add: update_fields_def Let_def split: option.splits)

lemma update_fields_modified [simp]: "modified (update_fields t g c stamp idea) = stamp"
  by (simp add: update_fields_def Let_def split: option.splits)

lemma update_fields_title:
  "title (update_fields t g c stamp idea)
     = (case t of None \<Rightarrow> title idea | Some x \<Rightarrow> if x = [] then title idea else PStr x)"
  by (simp add: update_fields_def Let_def split: option.splits)

lemma update_fields_tags:
  "tags (update_fields t g c stamp idea)
     = (case g of None \<Rightarrow> tags idea | Some x \<Rightarrow> PList (map PStr x))"
  by (simp add: update_fields_def Let_def split: option.splits)

lemma update_fields_content:
  "content (update_fields t g c stamp idea)
     = (case c of None \<Rightarrow> content idea | Some x \<Rightarrow> if x = [] then content idea else x)"
  by (simp add: update_fields_def Let_def split: option.splits)

lemma update_fields_empty_title:
  "update_fields (Some []) g c stamp idea = update_fields None g c stamp idea"
  by (simp add: update_fields_def)

lemma update_fields_empty_content:
  "update_fields t g (Some []) stamp idea = update_fields t g None stamp idea"
  by (simp add: update_fields_def)

lemma update_existing:
  assumes "load_idea_by_id Y self fs idea_id = Inr (Some idea)" and "id' idea = idea_id"
  shows "update_idea Y self now idea_id t g c fs
           = Inr (True, AList.update (get_idea_file_path self idea_id)
                          (File (to_markdown Y (update_fields t g c (generate_timestamp now) idea))) fs)"
proof -
  from load_SomeD [OF assms(1)] obtain old
    where "lookup fs (get_idea_file_path self idea_id) = Some (File old)" by blast
  with assms(2)
  have "lookup fs (get_idea_file_path self (id' (update_fields t g c (generate_timestamp now) idea)))
          = Some (File old)" by simp
  from save_over_file [OF this, of Y] assms show ?thesis
    by (simp add: update_idea_def)
qed

subsection \<open>The concrete store\<close>

lemma idea1_text:
  "to_markdown pyyaml idea1
     = ''---\<newline>id: 241025154736\<newline>modified: 241025154736\<newline>tags:\<newline>- python\<newline>- markdown\<newline>title: My First Idea\<newline>---\<newline>\<newline>A description.''"
  by code_simp

lemma load_store1: "load_idea_by_id pyyaml manager store1 241025154736 = Inr (Some idea1)"
  by code_simp

lemma clock1_stamp: "generate_timestamp clock1 = 241026093000"
  by (simp add: generate_timestamp_def clock1_def)

lemma update_then_load_example:
  "(case update_idea pyyaml manager clock1 241025154736 (Some ''New'') None None store1 of
      Inl e \<Rightarrow> Inl e
    | Inr (ok, fs') \<Rightarrow> load_idea_by_id pyyaml manager fs' 241025154736)
     = Inr (Some (idea1\<lparr>title := PStr ''New'', modified := 241026093000\<rparr>))"
  by code_simp

lemma idea1_id: "id' idea1 = 241025154736"
  by (simp add: idea1_def)

lemma update_store1_clear_tags:
  "update_idea pyyaml manager clock1 241025154736 None (Some []) None store1
     = Inr (True, store1_cleared)"
  by code_simp

lemma load_store1_cleared:
  "load_idea_by_id pyyaml manager store1_cleared 241025154736
     = Inr (Some (idea1\<lparr>modified := 241026093000, tags := PList []\<rparr>))"
  by code_simp

lemma update_store1_no_arguments:
  "update_idea pyyaml manager clock1 241025154736 None None None store1 \<noteq> Inr (True, store1_cleared)"
  by code_simp

subsection \<open>Parsing\<close>


subsection \<open>Making directories\<close>

lemma well_formed_parent:
  assumes "well_formed fs" and "lookup fs p \<noteq> None"
  shows "lookup fs (butlast p) = Some Dir"
proof (cases "p = []")
  case True
  then show ?thesis by (simp add: lookup_def)
next
  case False
  with assms(2) have "map_of fs p \<noteq> None" by (simp add: lookup_def)
  then have "p \<in> fst ` set fs" by (metis map_of_eq_None_iff)
  with assms(1) show ?thesis by (auto simp: well_formed_def list_all_iff)
qed

lemma well_formed_prefix:
  "well_formed fs \<Longrightarrow> lookup fs p \<noteq> None \<Longrightarrow> prefix q p \<Longrightarrow> lookup fs q \<noteq> None"
proof (induction p rule: rev_induct)
  case Nil
  then show ?case by simp
next
  case (snoc x ps)
  from well_formed_parent [OF snoc.prems(1,2)] have "lookup fs ps \<noteq> None" by simp
  with snoc show ?case by (auto simp: prefix_snoc)
qed

lemma no_file_above_iff:
  "no_file_above fs p \<longleftrightarrow> (\<forall>q t. prefix q (butlast p) \<longrightarrow> lookup fs q \<noteq> Some (File t))"
proof -
  have "\<And>q. (case lookup fs q of Some (File t) \<Rightarrow> False | _ \<Rightarrow> True)
              \<longleftrightarrow> (\<forall>t. lookup fs q \<noteq> Some (File t))"
    by (simp split: option.splits node.splits)
  then show ?thesis
    by (simp add: no_file_above_def list_all_iff Ball_def in_set_prefixes)
qed

lemma no_file_aboveD:
  "no_file_above fs p \<Longrightarrow> prefix q (butlast p) \<Longrightarrow> lookup fs q \<noteq> Some (File t)"
  by (simp add: no_file_above_iff)

lemma no_file_above_butlast: "no_file_above fs p \<Longrightarrow> no_file_above fs (butlast p)"
  unfolding no_file_above_iff
  by (meson prefix_order.trans prefixeq_butlast)

lemma os_mkdir_new:
  assumes "lookup fs p = None" and "lookup fs (butlast p) = Some Dir"
  shows "os_mkdir fs p = Inr (AList.update p Dir fs)"
  using assms by (simp add: os_mkdir_def)

lemma makedirs_creates:
  "well_formed fs \<Longrightarrow> lookup fs p = None \<Longrightarrow> no_file_above fs p \<Longrightarrow>
     \<exists>fs'. os_makedirs fs p = Inr fs'
          \<and> (\<forall>q. lookup fs' q
                 = (if prefix q p \<and> lookup fs q = None then Some Dir else lookup fs q))"
proof (induction p rule: rev_induct)
  case Nil
  then show ?case by (simp add: lookup_def)
next
  case (snoc x ps)
  let ?p = "ps @ [x]"
  have root: "lookup fs [] = Some Dir" by (simp add: lookup_def)
  show ?case
  proof (cases "ps \<noteq> [] \<and> \<not> os_path_exists fs ps")
    case True
    then have absent: "lookup fs ps = None" by (simp add: os_path_exists_def)
    from no_file_above_butlast [OF snoc.prems(3)] have "no_file_above fs ps" by simp
    from snoc.IH [OF snoc.prems(1) absent this] obtain fs1
      where run: "os_makedirs fs ps = Inr fs1"
        and look: "\<forall>q. lookup fs1 q
                     = (if prefix q ps \<and> lookup fs q = None then Some Dir else lookup fs q)"
      by blast
    from look snoc.prems(2) have "lookup fs1 ?p = None" by simp
    moreover from look absent have "lookup fs1 (butlast ?p) = Some Dir" by simp
    ultimately have mk: "os_mkdir fs1 ?p = Inr (AList.update ?p Dir fs1)"
      by (rule os_mkdir_new)
    have "os_makedirs fs ?p = Inr (AList.update ?p Dir fs1)"
      using True run mk by (simp add: os_makedirs.simps [of fs ?p])
    moreover have "\<forall>q. lookup (AList.update ?p Dir fs1) q
                     = (if prefix q ?p \<and> lookup fs q = None then Some Dir else lookup fs q)"
      using look snoc.prems(2) by (auto simp: lookup_update prefix_snoc)
    ultimately show ?thesis by blast
  next
    case False
    have parent: "lookup fs (butlast ?p) = Some Dir"
    proof (cases "ps = []")
      case True
      then show ?thesis by (simp add: root)
    next
      case nonempty: False
      with False obtain n where n: "lookup fs ps = Some n"
        by (auto simp: os_path_exists_def)
      from no_file_aboveD [OF snoc.prems(3), of ps] have "\<And>t. n \<noteq> File t"
        using n by auto
      with n show ?thesis by (cases n) auto
    qed
    with snoc.prems(2) have mk: "os_mkdir fs ?p = Inr (AList.update ?p Dir fs)"
      by (rule os_mkdir_new)
    have run: "os_makedirs fs ?p = Inr (AList.update ?p Dir fs)"
      using False mk by (auto simp: os_makedirs.simps [of fs ?p])
    have below: "\<And>q. prefix q ps \<Longrightarrow> lookup fs q \<noteq> None"
    proof -
      fix q assume "prefix q ps"
      from parent have "lookup fs ps \<noteq> None" by simp
      from well_formed_prefix [OF snoc.prems(1) this \<open>prefix q ps\<close>] show "lookup fs q \<noteq> None" .
    qed
    have "\<forall>q. lookup (AList.update ?p Dir fs) q
                     = (if prefix q ?p \<and> lookup fs q = None then Some Dir else lookup fs q)"
      using snoc.prems(2) below by (auto simp: lookup_update prefix_snoc)
    with run show ?thesis by blast
  qed
qed

lemma init_example:
  "IdeaManager_init home_only [''home'', ''user'', ''notes'']
     = Inr (\<lparr>directory = [''home'', ''user'', ''notes'']\<rparr>,
            [([''home''], Dir), ([''home'', ''user''], Dir), ([''home'', ''user'', ''notes''], Dir)])"
  by code_simp

lemma init_below_a_file:
  "IdeaManager_init file_at_notes [''notes'', ''ideas''] = Inl NotADirectoryError"
  by code_simp

subsection \<open>The loop of the listing\<close>

lemma load_loop_collect:
  "load_loop Y fs dir names acc
     = (case collect (map (\<lambda>n. from_markdown Y fs (os_path_join dir n))
                          (filter (\<lambda>n. endswith n ''.md'') names)) of
          Inl e \<Rightarrow> Inl e
        | Inr xs \<Rightarrow> Inr (acc @ xs))"
  by (induction names arbitrary: acc) (auto split: sum.splits)

lemma collect_Inr_length: "collect rs = Inr xs \<Longrightarrow> length xs = length rs"
  by (induction rs arbitrary: xs) (auto split: sum.splits)

lemma collect_Inr_nth: "collect rs = Inr xs \<Longrightarrow> i < length rs \<Longrightarrow> rs ! i = Inr (xs ! i)"
proof (induction rs arbitrary: xs i)
  case Nil
  then show ?case by simp
next
  case (Cons r rs)
  then show ?case by (cases i) (auto split: sum.splits)
qed

lemma listdir_store2:
  "os_listdir store2 (directory manager) = Inr [''idea241025154736.md'', ''todo.md'', ''readme.txt'']"
  by code_simp

lemma load_all_store2: "load_all_ideas pyyaml manager store2 = Inr [idea1, idea2]"
  by code_simp

subsection \<open>Creating a record\<close>

lemma create_returns:
  assumes "create_new_idea Y self now title_arg tags_arg content_arg fs = Inr (idea, fs')"
  shows "id' idea = generate_timestamp now" and "modified idea = id' idea"
    and "title idea = PStr title_arg" and "tags idea = PList (map PStr tags_arg)"
    and "content idea = content_arg"
  using assms by (auto simp: create_new_idea_def Let_def split: sum.splits)

lemma clock0_stamp: "generate_timestamp clock0 = 241025154736"
  by (simp add: generate_timestamp_def clock0_def)

lemma create_T:
  "create_new_idea pyyaml manager clock0 ''T'' [''a''] ''C'' store0 = Inr (created_T, store_T)"
  by code_simp

lemma load_T: "load_idea_by_id pyyaml manager store_T 241025154736 = Inr (Some created_T)"
  by code_simp

lemma create_then_load_example:
  "create_new_idea pyyaml manager clock0 ''T'' [''a''] ''C'' store0 = Inr (created_T, store_T)
   \<and> load_idea_by_id pyyaml manager store_T (id' created_T) = Inr (Some created_T)"
  using create_T load_T by (simp add: created_T_def)

subsection \<open>The round trip through a file text\<close>

text \<open>
  The text that \<^verbatim>\<open>to_markdown\<close> writes reads back as the record, with its content
  stripped, whenever the YAML text of the metadata holds no \<^verbatim>\<open>---\<close> and the library
  reads that text back as the metadata.
\<close>

lemma take_past_foreign_char:
  assumes "c \<notin> set sep" and "take (length sep) (ys @ [c]) \<noteq> sep"
  shows "take (length sep) (ys @ c # zs) \<noteq> sep"
proof (cases "length sep \<le> length ys")
  case True
  then have "take (length sep) (ys @ c # zs) = take (length sep) (ys @ [c])" by simp
  with assms(2) show ?thesis by simp
next
  case False
  then obtain k where "length sep - length ys = Suc k"
    by (cases "length sep - length ys") auto
  then have "take (length sep) (ys @ c # zs) = ys @ c # take k zs" by simp
  then have "c \<in> set (take (length sep) (ys @ c # zs))" by simp
  with assms(1) show ?thesis by metis
qed

lemma take_of_append_short: "n \<le> length ys \<Longrightarrow> take n (ys @ zs) = take n ys"
  by simp

lemma split_once_at_start: "sep \<noteq> [] \<Longrightarrow> split_once sep (sep @ b) = Some ([], b)"
  by (cases sep) auto

lemma split_once_None_Cons:
  "split_once sep (x # xs) = None \<longleftrightarrow> take (length sep) (x # xs) \<noteq> sep \<and> split_once sep xs = None"
  by (auto split: option.splits)

lemma split_once_snoc_None:
  "split_once sep s = None \<Longrightarrow> c \<notin> set sep \<Longrightarrow> sep \<noteq> [] \<Longrightarrow> split_once sep (s @ [c]) = None"
proof (induction s)
  case Nil
  then have "take (length sep) [c] \<noteq> sep" by (cases sep) auto
  then show ?case by simp
next
  case (Cons x xs)
  note Cons.prems(1) [unfolded split_once_None_Cons]
  then have no: "take (length sep) (x # xs) \<noteq> sep" and rest: "split_once sep xs = None"
    by blast+
  have "take (length sep) (x # xs @ [c]) \<noteq> sep"
  proof (cases "length sep \<le> length (x # xs)")
    case True
    then have "take (length sep) ((x # xs) @ [c]) = take (length sep) (x # xs)"
      by (rule take_of_append_short)
    with no show ?thesis by simp
  next
    case False
    then have "take (length sep) ((x # xs) @ [c]) = (x # xs) @ [c]" by simp
    then have "c \<in> set (take (length sep) ((x # xs) @ [c]))" by simp
    with Cons.prems(2) show ?thesis by (metis append_Cons)
  qed
  moreover from Cons.IH [OF rest Cons.prems(2,3)] have "split_once sep (xs @ [c]) = None" .
  ultimately show ?case by simp
qed

lemma split_once_Cons_None:
  assumes "split_once sep s = None" and "c \<notin> set sep" and "sep \<noteq> []"
  shows "split_once sep (c # s) = None"
proof -
  from assms(2,3) have "take (length sep) (c # s) \<noteq> sep"
    by (cases sep) auto
  with assms(1) show ?thesis by simp
qed

lemma split_once_before_sep:
  "split_once sep (a @ [c]) = None \<Longrightarrow> c \<notin> set sep \<Longrightarrow> sep \<noteq> [] \<Longrightarrow>
     split_once sep (a @ c # sep @ b) = Some (a @ [c], b)"
proof (induction a)
  case Nil
  from Nil.prems(2,3) have "take (length sep) (c # sep @ b) \<noteq> sep"
    by (cases sep) auto
  with split_once_at_start [OF Nil.prems(3), of b] show ?case by simp
next
  case (Cons x xs)
  from Cons.prems(1) have "split_once sep (x # (xs @ [c])) = None" by simp
  note this [unfolded split_once_None_Cons]
  then have no: "take (length sep) ((x # xs) @ [c]) \<noteq> sep"
    and rest: "split_once sep (xs @ [c]) = None"
    by simp_all
  from take_past_foreign_char [OF Cons.prems(2) no, of "sep @ b"]
  have "take (length sep) (x # xs @ c # sep @ b) \<noteq> sep" by simp
  with Cons.IH [OF rest Cons.prems(2,3)] show ?case by simp
qed

lemma py_split_2:
  "py_split sep 2 s =
     (case split_once sep s of
        None \<Rightarrow> [s]
      | Some (a, b) \<Rightarrow>
          a # (case split_once sep b of None \<Rightarrow> [b] | Some (a', b') \<Rightarrow> [a', b']))"
  by (simp add: numeral_2_eq_2 split: option.splits)

lemma py_strip_after_newlines: "py_strip (CHR 0x0A # CHR 0x0A # s) = py_strip s"
  by (simp add: py_strip_def isspace_def)

lemma round_trip_without_marker:
  fixes r :: Idea
  defines "md \<equiv> PDict [(PStr ''id'', PInt (id' r)), (PStr ''title'', title r),
                        (PStr ''modified'', PInt (modified r)), (PStr ''tags'', tags r)]"
  assumes no_marker: "split_once ''---'' (py_strip (dump Y md)) = None"
      and reads_back: "safe_load Y (''\<newline>'' @ py_strip (dump Y md) @ ''\<newline>'') = Some md"
  shows "from_markdown_text Y (to_markdown Y r) = Inr (r\<lparr>content := py_strip (content r)\<rparr>)"
proof -
  let ?ym = "py_strip (dump Y md)"
  let ?body = "''\<newline>\<newline>'' @ content r"
  have written: "to_markdown Y r = ''---'' @ ((CHR 0x0A # ?ym) @ CHR 0x0A # ''---'' @ ?body)"
    by (simp add: to_markdown_def md_def Let_def)
  have first: "split_once ''---'' (''---'' @ ((CHR 0x0A # ?ym) @ CHR 0x0A # ''---'' @ ?body))
                 = Some ([], (CHR 0x0A # ?ym) @ CHR 0x0A # ''---'' @ ?body)"
    by (rule split_once_at_start) simp
  have "split_once ''---'' (CHR 0x0A # ?ym) = None"
    using no_marker by (rule split_once_Cons_None) simp_all
  then have "split_once ''---'' ((CHR 0x0A # ?ym) @ [CHR 0x0A]) = None"
    by (rule split_once_snoc_None) simp_all
  then have second: "split_once ''---'' ((CHR 0x0A # ?ym) @ CHR 0x0A # ''---'' @ ?body)
                 = Some ((CHR 0x0A # ?ym) @ [CHR 0x0A], ?body)"
    by (rule split_once_before_sep) simp_all
  have "py_split ''---'' 2 (to_markdown Y r) = [[], (CHR 0x0A # ?ym) @ [CHR 0x0A], ?body]"
    by (simp only: written py_split_2 first second option.case prod.case)
  then have parts: "tl (py_split ''---'' 2 (to_markdown Y r))
                 = [''\<newline>'' @ ?ym @ ''\<newline>'', ?body]"
    by simp
  show ?thesis
    unfolding from_markdown_text_def parts
    using reads_back by (cases r) (simp add: md_def py_strip_after_newlines)
qed

lemma round_trip_example:
  "from_markdown_text pyyaml (to_markdown pyyaml created_T) = Inr created_T"
  by code_simp

subsection \<open>The names of the files\<close>

text \<open>
  The store's own file names follow the naming convention.
\<close>

lemma of_char_digit_char:
  assumes "0 \<le> d" and "d < 10"
  shows "(of_char (digit_char d) :: nat) = nat (48 + d)"
proof -
  from assms have "(of_char (digit_char d) :: int) = 48 + d"
    by (simp add: digit_char_def)
  then have "nat (of_char (digit_char d) :: int) = nat (48 + d)" by simp
  then show ?thesis by (simp only: nat_of_char)
qed

lemma isdigit_digit_char: "0 \<le> d \<Longrightarrow> d < 10 \<Longrightarrow> isdigit (digit_char d)"
  by (simp add: isdigit_def of_char_digit_char Let_def) arith

lemma digit_char_zero: "0 \<le> d \<Longrightarrow> d < 10 \<Longrightarrow> digit_char d = CHR ''0'' \<longleftrightarrow> d = 0"
proof -
  assume d: "0 \<le> d" "d < 10"
  have "digit_char d = CHR ''0'' \<longleftrightarrow> (of_char (digit_char d) :: nat) = of_char (CHR ''0'')"
    by (simp only: of_char_eq_iff)
  also have "\<dots> \<longleftrightarrow> d = 0" using d by (simp add: of_char_digit_char) arith
  finally show ?thesis .
qed

lemma str_digits_shape:
  "0 \<le> n \<Longrightarrow> str_digits n \<noteq> [] \<and> list_all isdigit (str_digits n)
     \<and> (0 < n \<longrightarrow> hd (str_digits n) \<noteq> CHR ''0'')"
proof (induction n rule: str_digits.induct)
  case (1 n)
  show ?case
  proof (cases "n < 10")
    case True
    with "1.prems" show ?thesis
      by (simp add: str_digits.simps [of n] isdigit_digit_char digit_char_zero)
  next
    case False
    then have pos: "0 < n div 10" and nonneg: "0 \<le> n div 10" by simp_all
    from "1.IH" [OF False nonneg] pos
    have ih: "str_digits (n div 10) \<noteq> []" "list_all isdigit (str_digits (n div 10))"
      "hd (str_digits (n div 10)) \<noteq> CHR ''0''"
      by simp_all
    have "isdigit (digit_char (n mod 10))" by (simp add: isdigit_digit_char)
    with ih False show ?thesis by (simp add: str_digits.simps [of n])
  qed
qed

lemma isdigit_not_minus: "isdigit c \<Longrightarrow> c \<noteq> CHR ''-''"
  by (auto simp: isdigit_def)

lemma decimal_text_str_int: "decimal_text (str_int i)"
proof (cases "i < 0")
  case True
  then have "0 \<le> - i" and "0 < - i" by simp_all
  with str_digits_shape [of "- i"] True show ?thesis
    by (simp add: decimal_text_def str_int_def)
next
  case False
  then have n: "0 \<le> i" by simp
  from str_digits_shape [OF n] obtain c cs where s: "str_digits i = c # cs"
    by (cases "str_digits i") auto
  with str_digits_shape [OF n] have "c \<noteq> CHR ''-''" by (simp add: isdigit_not_minus)
  show ?thesis
  proof (cases "i = 0")
    case True
    then show ?thesis
      by (simp add: decimal_text_def str_int_def str_digits.simps [of 0] isdigit_digit_char
            isdigit_not_minus)
  next
    case nz: False
    with n str_digits_shape [OF n] s \<open>c \<noteq> CHR ''-''\<close> False show ?thesis
      by (simp add: decimal_text_def str_int_def)
  qed
qed

lemma store_names_follow_convention:
  "idea_file_name (last (get_idea_file_path self idea_id))"
proof -
  have "decimal_text (str_int idea_id)" by (rule decimal_text_str_int)
  then show ?thesis
    by (simp add: idea_file_name_def get_idea_file_path_def os_path_join_def endswith_def)
qed

subsection \<open>A marker inside the metadata, for any YAML library\<close>

text \<open>
  When the YAML text of the metadata holds a \<^verbatim>\<open>---\<close>, the second cut of
  \<^verbatim>\<open>from_markdown\<close> falls there: the YAML parser is given the text before it only, and
  what follows it, with the closing marker, is read as content.
\<close>

lemma split_once_SomeD: "split_once sep s = Some (a, b) \<Longrightarrow> s = a @ sep @ b"
proof (induction s arbitrary: a)
  case Nil
  then show ?case by simp
next
  case (Cons x xs)
  show ?case
  proof (cases "take (length sep) (x # xs) = sep")
    case True
    with Cons.prems have "a = []" and "b = drop (length sep) (x # xs)" by simp_all
    with True show ?thesis by (metis append_Nil append_take_drop_id)
  next
    case False
    with Cons.prems obtain a' where "split_once sep xs = Some (a', b)" and "a = x # a'"
      by (auto split: option.splits)
    with Cons.IH show ?thesis by simp
  qed
qed

lemma drop_of_append_short: "n \<le> length ys \<Longrightarrow> drop n (ys @ zs) = drop n ys @ zs"
  by simp

lemma split_once_append:
  "split_once sep s = Some (a, b) \<Longrightarrow> split_once sep (s @ t) = Some (a, b @ t)"
proof (induction s arbitrary: a)
  case Nil
  then show ?case by simp
next
  case (Cons x xs)
  from split_once_SomeD [OF Cons.prems] have "length sep \<le> length (x # xs)" by simp
  then have same: "take (length sep) ((x # xs) @ t) = take (length sep) (x # xs)"
    by (rule take_of_append_short)
  show ?case
  proof (cases "take (length sep) (x # xs) = sep")
    case True
    with Cons.prems have ab: "a = []" "b = drop (length sep) (x # xs)" by simp_all
    from \<open>length sep \<le> length (x # xs)\<close>
    have "drop (length sep) ((x # xs) @ t) = drop (length sep) (x # xs) @ t"
      by (rule drop_of_append_short)
    with True same ab show ?thesis by simp
  next
    case False
    with Cons.prems obtain a' where rest: "split_once sep xs = Some (a', b)" and a: "a = x # a'"
      by (auto split: option.splits)
    from False same have "take (length sep) (x # xs @ t) \<noteq> sep" by simp
    with Cons.IH [OF rest] a show ?thesis by simp
  qed
qed

lemma split_once_Cons_Some:
  assumes "split_once sep s = Some (a, b)" and "c \<notin> set sep" and "sep \<noteq> []"
  shows "split_once sep (c # s) = Some (c # a, b)"
proof -
  from assms(2,3) have "take (length sep) (c # s) \<noteq> sep"
    by (cases sep) auto
  with assms(1) show ?thesis by simp
qed

lemma marker_in_metadata_cuts_the_text:
  fixes r :: Idea
  defines "md \<equiv> PDict [(PStr ''id'', PInt (id' r)), (PStr ''title'', title r),
                        (PStr ''modified'', PInt (modified r)), (PStr ''tags'', tags r)]"
  assumes marker: "split_once ''---'' (py_strip (dump Y md)) = Some (before, rest)"
  shows "tl (py_split ''---'' 2 (to_markdown Y r))
           = [CHR 0x0A # before, rest @ ''\<newline>---\<newline>\<newline>'' @ content r]"
proof -
  let ?ym = "py_strip (dump Y md)"
  let ?tail = "''\<newline>---\<newline>\<newline>'' @ content r"
  have written: "to_markdown Y r = ''---'' @ (CHR 0x0A # (?ym @ ?tail))"
    by (simp add: to_markdown_def md_def Let_def)
  have first: "split_once ''---'' (''---'' @ (CHR 0x0A # (?ym @ ?tail)))
                 = Some ([], CHR 0x0A # (?ym @ ?tail))"
    by (rule split_once_at_start) simp
  from marker have "split_once ''---'' (?ym @ ?tail) = Some (before, rest @ ?tail)"
    by (rule split_once_append)
  then have second: "split_once ''---'' (CHR 0x0A # (?ym @ ?tail))
                 = Some (CHR 0x0A # before, rest @ ?tail)"
    by (rule split_once_Cons_Some) simp_all
  have "py_split ''---'' 2 (to_markdown Y r) = [[], CHR 0x0A # before, rest @ ?tail]"
    by (simp only: written py_split_2 first second option.case prod.case)
  then show ?thesis by simp
qed

lemma marker_in_metadata_changes_content:
  fixes r :: Idea
  defines "md \<equiv> PDict [(PStr ''id'', PInt (id' r)), (PStr ''title'', title r),
                        (PStr ''modified'', PInt (modified r)), (PStr ''tags'', tags r)]"
  assumes marker: "split_once ''---'' (py_strip (dump Y md)) = Some (before, rest)"
      and loaded: "from_markdown_text Y (to_markdown Y r) = Inr idea"
  shows "content idea = py_strip (rest @ ''\<newline>---\<newline>\<newline>'' @ content r)"
proof -
  from marker have parts: "tl (py_split ''---'' 2 (to_markdown Y r))
           = [CHR 0x0A # before, rest @ ''\<newline>---\<newline>\<newline>'' @ content r]"
    unfolding md_def by (rule marker_in_metadata_cuts_the_text)
  from loaded show ?thesis
    unfolding from_markdown_text_def parts
    by (auto split: option.splits sum.splits)
qed

subsection \<open>The clock and its timestamps\<close>

text \<open>
  Within a century the timestamp follows the clock: a reading in a later second has a
  larger timestamp, and a reading that is not earlier has a timestamp that is not
  smaller.  Across a century the two digits of the year start again.
\<close>

lemma same_century_years:
  assumes "same_century a b"
  shows "year a < year b \<longleftrightarrow> year a mod 100 < year b mod 100"
    and "year a = year b \<longleftrightarrow> year a mod 100 = year b mod 100"
proof -
  have "year a = 100 * (year a div 100) + year a mod 100"
    and "year b = 100 * (year b div 100) + year b mod 100"
    by simp_all
  with assms show "year a < year b \<longleftrightarrow> year a mod 100 < year b mod 100"
    and "year a = year b \<longleftrightarrow> year a mod 100 = year b mod 100"
    unfolding same_century_def by presburger+
qed

lemma stamp_order:
  fixes ya ma da ha na sa yb mb db hb nb sb :: int
  assumes "0 \<le> ma" "ma \<le> 99" "0 \<le> da" "da \<le> 99" "0 \<le> ha" "ha \<le> 99"
      "0 \<le> na" "na \<le> 99" "0 \<le> sa" "sa \<le> 99"
      "0 \<le> mb" "mb \<le> 99" "0 \<le> db" "db \<le> 99" "0 \<le> hb" "hb \<le> 99"
      "0 \<le> nb" "nb \<le> 99" "0 \<le> sb" "sb \<le> 99"
      and "lex_less [ya, ma, da, ha, na, sa] [yb, mb, db, hb, nb, sb]"
  shows "((((ya * 100 + ma) * 100 + da) * 100 + ha) * 100 + na) * 100 + sa
       < ((((yb * 100 + mb) * 100 + db) * 100 + hb) * 100 + nb) * 100 + sb"
proof -
  from assms(21) consider "ya < yb" | "ya = yb" "ma < mb" | "ya = yb" "ma = mb" "da < db"
    | "ya = yb" "ma = mb" "da = db" "ha < hb"
    | "ya = yb" "ma = mb" "da = db" "ha = hb" "na < nb"
    | "ya = yb" "ma = mb" "da = db" "ha = hb" "na = nb" "sa < sb"
    by auto
  then show ?thesis using assms(1-20) by cases simp_all
qed

lemma timestamp_later_second:
  assumes "valid_datetime a" and "valid_datetime b" and "same_century a b"
      and "later_second a b"
  shows "generate_timestamp a < generate_timestamp b"
proof -
  from assms(4) same_century_years [OF assms(3)]
  have "lex_less [year a mod 100, month a, day a, hour a, minute a, second a]
                 [year b mod 100, month b, day b, hour b, minute b, second b]"
    by (simp add: later_second_def to_second_def)
  with assms(1,2) show ?thesis
    unfolding generate_timestamp_def valid_datetime_def
    by (intro stamp_order) simp_all
qed

lemma not_earlier_cases:
  assumes "\<not> later b a"
  shows "later_second a b \<or> to_second a = to_second b"
  using assms by (auto simp: later_def later_second_def to_second_def)

lemma timestamp_same_second: "to_second a = to_second b \<Longrightarrow> generate_timestamp a = generate_timestamp b"
  by (simp add: to_second_def generate_timestamp_def)

lemma timestamp_not_earlier:
  assumes "valid_datetime a" and "valid_datetime b" and "same_century a b"
      and "\<not> later b a"
  shows "generate_timestamp a \<le> generate_timestamp b"
  using not_earlier_cases [OF assms(4)] timestamp_later_second [OF assms(1-3)]
    timestamp_same_second [of a b]
  by auto

lemma clock0_valid: "valid_datetime clock0"
  by (simp add: valid_datetime_def clock0_def)

lemma clock1_valid: "valid_datetime clock1"
  by (simp add: valid_datetime_def clock1_def)

lemma clock0_clock1_same_century: "same_century clock0 clock1"
  by (simp add: same_century_def clock0_def clock1_def)

lemma clock0_clock1_later_second: "later_second clock0 clock1"
  by (simp add: later_second_def to_second_def clock0_def clock1_def)

lemma idea1_modified: "modified idea1 = generate_timestamp clock0"
  by (simp add: idea1_def clock0_stamp)

lemma update_T_in_the_same_second:
  "update_idea pyyaml manager clock0_half 241025154736 (Some ''New'') None None store_T
     = Inr (True, store_T_renamed)"
  by code_simp

lemma load_T_renamed:
  "load_idea_by_id pyyaml manager store_T_renamed 241025154736
     = Inr (Some (created_T\<lparr>title := PStr ''New''\<rparr>))"
  by code_simp

lemma load_2099:
  "load_idea_by_id pyyaml manager store_2099 991231235959 = Inr (Some created_2099)"
  by code_simp

lemma update_2100:
  "update_idea pyyaml manager clock_2100 991231235959 (Some ''New'') None None store_2099
     = Inr (True, store_2100)"
  by code_simp

lemma load_2100:
  "load_idea_by_id pyyaml manager store_2100 991231235959
     = Inr (Some (created_2099\<lparr>title := PStr ''New'', modified := 101000000\<rparr>))"
  by code_simp


lemma int_of_str_separator: "int_of_str [CHR 0x1C, CHR ''1'', CHR ''2''] = Inl ValueError"
  by code_simp

lemma int_of_str_spaces: "int_of_str '' 12\<newline>'' = Inr 12"
  by code_simp


subsection \<open>What the operations leave in the store\<close>

lemma create_writes:
  assumes "create_new_idea Y self now title_arg tags_arg content_arg fs = Inr (idea, fs')"
  shows "lookup fs' (get_idea_file_path self (id' idea)) = Some (File (to_markdown Y idea))"
proof -
  from assms have saved: "save_idea Y self idea fs = Inr fs'"
    by (auto simp: create_new_idea_def Let_def split: sum.splits)
  then have "fs' = AList.update (get_idea_file_path self (id' idea)) (File (to_markdown Y idea)) fs"
    by (auto simp: save_idea_def open_write_def split: option.splits node.splits)
  then show ?thesis
    by (simp add: lookup_update get_idea_file_path_nonempty)
qed

lemma reachable_valid: "reachable Y self now fs idea_id \<Longrightarrow> valid_datetime now"
  by (induction rule: reachable.induct) simp_all

lemma clock_2099_valid: "valid_datetime clock_2099"
  by (simp add: valid_datetime_def clock_2099_def)

lemma clock_2100_valid: "valid_datetime clock_2100"
  by (simp add: valid_datetime_def clock_2100_def)

lemma create_2099:
  "create_new_idea pyyaml manager clock_2099 ''T'' [''a''] ''C'' store0
     = Inr (created_2099, store_2099)"
  by code_simp

lemma update_T_at_clock1:
  "update_idea pyyaml manager clock1 241025154736 (Some ''New'') None None store_T
     = Inr (True, store_T_updated)"
  by code_simp

lemma load_T_updated:
  "load_idea_by_id pyyaml manager store_T_updated 241025154736
     = Inr (Some (created_T\<lparr>title := PStr ''New'', modified := 241026093000\<rparr>))"
  by code_simp

lemma clock1_not_before_clock0: "\<not> later clock1 clock0"
  by (simp add: later_def to_second_def clock0_def clock1_def)

section \<open>Operations on an id that names no file\<close>

text \<open>
  C5.  When nothing exists at the path of an id, \<^verbatim>\<open>load_idea_by_id\<close> returns
  \<^verbatim>\<open>None\<close>, \<^verbatim>\<open>update_idea\<close> returns \<^verbatim>\<open>False\<close> and \<^verbatim>\<open>delete_idea\<close> returns
  \<^verbatim>\<open>False\<close>: each returns a value (\<open>Inr\<close>), none raises, whatever the YAML library,
  the clock and the arguments of the update are.
\<close>

theorem missing_id_is_not_an_error:
  assumes "\<not> os_path_exists fs (get_idea_file_path self idea_id)"
  shows "load_idea_by_id Y self fs idea_id = Inr None
       \<and> update_idea Y self now idea_id title_arg tags_arg content_arg fs = Inr (False, fs)
       \<and> delete_idea self idea_id fs = Inr (False, fs)"
proof -
  have l: "load_idea_by_id Y self fs idea_id = Inr None"
    using assms by (rule load_absent)
  have u: "update_idea Y self now idea_id title_arg tags_arg content_arg fs = Inr (False, fs)"
    by (simp add: update_idea_def l)
  have d: "delete_idea self idea_id fs = Inr (False, fs)"
    using assms by (simp add: delete_idea_def)
  from l u d show ?thesis by simp
qed

theorem missing_id_is_not_an_error_witness:
  "\<not> os_path_exists store1 (get_idea_file_path manager 9999999999999)
   \<and> load_idea_by_id pyyaml manager store1 9999999999999 = Inr None
   \<and> update_idea pyyaml manager clock1 9999999999999 (Some ''x'') None None store1
       = Inr (False, store1)
   \<and> delete_idea manager 9999999999999 store1 = Inr (False, store1)"
  using absent_9999999999999
    missing_id_is_not_an_error [OF absent_9999999999999, of pyyaml clock1 "Some ''x''" None None]
  by simp

text \<open>
  C10.  An update of an id that names no file returns \<^verbatim>\<open>False\<close> and hands back the
  file system it was given: \<^verbatim>\<open>save_idea\<close> is not reached, so no file is created and
  every path holds what it held before.
\<close>

theorem failed_update_writes_nothing:
  assumes "\<not> os_path_exists fs (get_idea_file_path self idea_id)"
  shows "\<exists>fs'. update_idea Y self now idea_id title_arg tags_arg content_arg fs = Inr (False, fs')
             \<and> fs' = fs
             \<and> (\<forall>p. lookup fs' p = lookup fs p)"
  using assms by (simp add: update_idea_def load_absent)

theorem failed_update_writes_nothing_witness:
  "\<not> os_path_exists store1 (get_idea_file_path manager 9999999999999)
   \<and> (\<exists>fs'. update_idea pyyaml manager clock1 9999999999999 (Some ''x'') (Some [''t'']) (Some ''y'')
               store1 = Inr (False, fs')
           \<and> fs' = store1
           \<and> (\<forall>p. lookup fs' p = lookup store1 p))"
  using absent_9999999999999
    failed_update_writes_nothing [OF absent_9999999999999, of pyyaml clock1 "Some ''x''"
      "Some [''t'']" "Some ''y''"]
  by simp

section \<open>Empty arguments of an update\<close>

text \<open>
  C2, as the code has it.  For a record that loads under its id: an update that passes
  the empty string as title, or as content, does what the update without that argument
  does, and the record written keeps the title and the content loaded.  An update that
  passes the empty list as tags is not skipped: the record written has no tags.
\<close>

theorem empty_text_is_skipped_empty_tags_are_written:
  assumes "load_idea_by_id Y self fs idea_id = Inr (Some idea)"
      and "id' idea = idea_id"
  shows "update_idea Y self now idea_id (Some '''') tags_arg content_arg fs
           = update_idea Y self now idea_id None tags_arg content_arg fs
       \<and> update_idea Y self now idea_id title_arg tags_arg (Some '''') fs
           = update_idea Y self now idea_id title_arg tags_arg None fs
       \<and> (\<exists>fs' idea'.
             update_idea Y self now idea_id (Some '''') None (Some '''') fs = Inr (True, fs')
           \<and> lookup fs' (get_idea_file_path self idea_id) = Some (File (to_markdown Y idea'))
           \<and> title idea' = title idea \<and> content idea' = content idea \<and> tags idea' = tags idea)
       \<and> (\<exists>fs' idea'.
             update_idea Y self now idea_id None (Some []) None fs = Inr (True, fs')
           \<and> lookup fs' (get_idea_file_path self idea_id) = Some (File (to_markdown Y idea'))
           \<and> tags idea' = PList [] \<and> title idea' = title idea \<and> content idea' = content idea)"
proof -
  let ?p = "get_idea_file_path self idea_id"
  let ?stamp = "generate_timestamp now"
  have skip_title: "update_idea Y self now idea_id (Some '''') tags_arg content_arg fs
                     = update_idea Y self now idea_id None tags_arg content_arg fs"
    by (simp add: update_idea_def update_fields_empty_title split: sum.splits option.splits)
  have skip_content: "update_idea Y self now idea_id title_arg tags_arg (Some '''') fs
                     = update_idea Y self now idea_id title_arg tags_arg None fs"
    by (simp add: update_idea_def update_fields_empty_content split: sum.splits option.splits)
  have written: "\<And>t g c. \<exists>fs'.
           update_idea Y self now idea_id t g c fs = Inr (True, fs')
         \<and> lookup fs' ?p = Some (File (to_markdown Y (update_fields t g c ?stamp idea)))"
    by (simp add: update_existing [OF assms] lookup_update get_idea_file_path_nonempty)
  have kept: "\<exists>fs' idea'.
             update_idea Y self now idea_id (Some '''') None (Some '''') fs = Inr (True, fs')
           \<and> lookup fs' ?p = Some (File (to_markdown Y idea'))
           \<and> title idea' = title idea \<and> content idea' = content idea \<and> tags idea' = tags idea"
    using written [of "Some ''''" None "Some ''''"]
    by (auto simp: update_fields_title update_fields_content update_fields_tags
             intro!: exI [of _ "update_fields (Some '''') None (Some '''') ?stamp idea"])
  have cleared: "\<exists>fs' idea'.
             update_idea Y self now idea_id None (Some []) None fs = Inr (True, fs')
           \<and> lookup fs' ?p = Some (File (to_markdown Y idea'))
           \<and> tags idea' = PList [] \<and> title idea' = title idea \<and> content idea' = content idea"
    using written [of None "Some []" None]
    by (auto simp: update_fields_title update_fields_content update_fields_tags
             intro!: exI [of _ "update_fields None (Some []) None ?stamp idea"])
  from skip_title skip_content kept cleared show ?thesis by blast
qed

theorem empty_text_is_skipped_empty_tags_are_written_witness:
  "load_idea_by_id pyyaml manager store1 241025154736 = Inr (Some idea1)
   \<and> id' idea1 = 241025154736
   \<and> update_idea pyyaml manager clock1 241025154736 (Some '''') None None store1
       = update_idea pyyaml manager clock1 241025154736 None None None store1
   \<and> update_idea pyyaml manager clock1 241025154736 None None (Some '''') store1
       = update_idea pyyaml manager clock1 241025154736 None None None store1
   \<and> (\<exists>fs' idea'.
         update_idea pyyaml manager clock1 241025154736 (Some '''') None (Some '''') store1
           = Inr (True, fs')
       \<and> lookup fs' (get_idea_file_path manager 241025154736) = Some (File (to_markdown pyyaml idea'))
       \<and> title idea' = title idea1 \<and> content idea' = content idea1 \<and> tags idea' = tags idea1)
   \<and> (\<exists>fs' idea'.
         update_idea pyyaml manager clock1 241025154736 None (Some []) None store1 = Inr (True, fs')
       \<and> lookup fs' (get_idea_file_path manager 241025154736) = Some (File (to_markdown pyyaml idea'))
       \<and> tags idea' = PList [] \<and> title idea' = title idea1 \<and> content idea' = content idea1)"
  using load_store1 idea1_id
    empty_text_is_skipped_empty_tags_are_written [OF load_store1 idea1_id, of clock1 None None None]
  by blast

text \<open>
  C2 as stated fails for the tags.  The stored record has the tags \<^verbatim>\<open>python\<close> and
  \<^verbatim>\<open>markdown\<close>; after \<^verbatim>\<open>update_idea(241025154736, tags=[])\<close> the file says
  \<^verbatim>\<open>tags: []\<close> and loads with no tags, and the update without the argument writes a
  different file.
\<close>

theorem empty_tags_are_not_skipped:
  "load_idea_by_id pyyaml manager store1 241025154736 = Inr (Some idea1)
   \<and> tags idea1 = PList [PStr ''python'', PStr ''markdown'']
   \<and> update_idea pyyaml manager clock1 241025154736 None (Some []) None store1
       = Inr (True, store1_cleared)
   \<and> load_idea_by_id pyyaml manager store1_cleared 241025154736
       = Inr (Some (idea1\<lparr>modified := 241026093000, tags := PList []\<rparr>))
   \<and> update_idea pyyaml manager clock1 241025154736 None (Some []) None store1
       \<noteq> update_idea pyyaml manager clock1 241025154736 None None None store1"
  using load_store1 update_store1_clear_tags load_store1_cleared update_store1_no_arguments
  by (simp add: idea1_def)

section \<open>Construction of the manager\<close>

text \<open>
  C7, as the code has it.  When an entry exists at the path, a directory or not,
  \<^verbatim>\<open>IdeaManager(directory)\<close> succeeds and changes nothing.  When none exists, and no
  ancestor of the path is a regular file, the constructor succeeds, and afterwards the
  path and every missing ancestor of it is a directory, while every other path holds
  what it held.
\<close>

theorem init_accepts_or_creates:
  assumes "well_formed fs"
  shows "(os_path_exists fs dir \<longrightarrow> IdeaManager_init fs dir = Inr (\<lparr>directory = dir\<rparr>, fs))
       \<and> (\<not> os_path_exists fs dir \<and> no_file_above fs dir \<longrightarrow>
            (\<exists>fs'. IdeaManager_init fs dir = Inr (\<lparr>directory = dir\<rparr>, fs')
                 \<and> (\<forall>q. lookup fs' q
                        = (if prefix q dir \<and> lookup fs q = None then Some Dir else lookup fs q))))"
proof (intro conjI impI)
  assume "os_path_exists fs dir"
  then show "IdeaManager_init fs dir = Inr (\<lparr>directory = dir\<rparr>, fs)"
    by (simp add: IdeaManager_init_def)
next
  assume a: "\<not> os_path_exists fs dir \<and> no_file_above fs dir"
  then have "lookup fs dir = None" by (simp add: os_path_exists_def)
  from makedirs_creates [OF assms this] a obtain fs'
    where "os_makedirs fs dir = Inr fs'"
      and "\<forall>q. lookup fs' q
             = (if prefix q dir \<and> lookup fs q = None then Some Dir else lookup fs q)"
    by blast
  with a show "\<exists>fs'. IdeaManager_init fs dir = Inr (\<lparr>directory = dir\<rparr>, fs')
                 \<and> (\<forall>q. lookup fs' q
                        = (if prefix q dir \<and> lookup fs q = None then Some Dir else lookup fs q))"
    by (simp add: IdeaManager_init_def)
qed

theorem init_accepts_or_creates_witness:
  "well_formed home_only
   \<and> \<not> os_path_exists home_only [''home'', ''user'', ''notes'']
   \<and> no_file_above home_only [''home'', ''user'', ''notes'']
   \<and> (\<exists>fs'. IdeaManager_init home_only [''home'', ''user'', ''notes'']
               = Inr (\<lparr>directory = [''home'', ''user'', ''notes'']\<rparr>, fs')
           \<and> (\<forall>q. lookup fs' q
                  = (if prefix q [''home'', ''user'', ''notes''] \<and> lookup home_only q = None
                     then Some Dir else lookup home_only q)))
   \<and> well_formed file_at_notes
   \<and> os_path_exists file_at_notes [''notes'']
   \<and> IdeaManager_init file_at_notes [''notes''] = Inr (\<lparr>directory = [''notes'']\<rparr>, file_at_notes)"
proof -
  have w: "well_formed home_only" by code_simp
  have a: "\<not> os_path_exists home_only [''home'', ''user'', ''notes'']" by code_simp
  have n: "no_file_above home_only [''home'', ''user'', ''notes'']" by code_simp
  have w2: "well_formed file_at_notes" by code_simp
  have e: "os_path_exists file_at_notes [''notes'']" by code_simp
  from init_accepts_or_creates [OF w, of "[''home'', ''user'', ''notes'']"]
       init_accepts_or_creates [OF w2, of "[''notes'']"] w a n w2 e
  show ?thesis by blast
qed

text \<open>
  C7 as stated fails where the path is a regular file: the constructor returns a
  manager and raises nothing.
\<close>

theorem init_accepts_a_regular_file:
  "lookup file_at_notes [''notes''] = Some (File ''shopping list'')
   \<and> IdeaManager_init file_at_notes [''notes''] = Inr (\<lparr>directory = [''notes'']\<rparr>, file_at_notes)"
  by code_simp

section \<open>Listing the store\<close>

text \<open>
  C8, as the code has it.  \<^verbatim>\<open>load_all_ideas\<close> parses the entries of the directory whose
  name ends with \<^verbatim>\<open>.md\<close>, in the order of the listing, whatever the rest of the name
  is.  It returns the records of all of them, one for each, or raises the first
  exception of a parse; an entry with another ending contributes nothing.
\<close>

theorem load_all_ideas_reads_every_md_entry:
  assumes "os_listdir fs (directory self) = Inr names"
  shows "load_all_ideas Y self fs
           = collect (map (\<lambda>n. from_markdown Y fs (os_path_join (directory self) n))
                          (filter (\<lambda>n. endswith n ''.md'') names))
       \<and> (\<forall>ideas. load_all_ideas Y self fs = Inr ideas \<longrightarrow>
             length ideas = length (filter (\<lambda>n. endswith n ''.md'') names)
           \<and> (\<forall>i < length ideas.
                 from_markdown Y fs
                    (os_path_join (directory self) (filter (\<lambda>n. endswith n ''.md'') names ! i))
                   = Inr (ideas ! i)))"
proof -
  let ?mds = "filter (\<lambda>n. endswith n ''.md'') names"
  let ?parse = "\<lambda>n. from_markdown Y fs (os_path_join (directory self) n)"
  have eq: "load_all_ideas Y self fs = collect (map ?parse ?mds)"
    using assms by (simp add: load_all_ideas_def load_loop_collect split: sum.splits)
  have each: "length ideas = length ?mds \<and> (\<forall>i < length ideas. ?parse (?mds ! i) = Inr (ideas ! i))"
    if "load_all_ideas Y self fs = Inr ideas" for ideas
  proof -
    from that eq have c: "collect (map ?parse ?mds) = Inr ideas" by simp
    from collect_Inr_length [OF c] have len: "length ideas = length ?mds" by simp
    moreover have "?parse (?mds ! i) = Inr (ideas ! i)" if "i < length ideas" for i
      using collect_Inr_nth [OF c, of i] that len by simp
    ultimately show ?thesis by blast
  qed
  from eq each show ?thesis by blast
qed

theorem load_all_ideas_reads_every_md_entry_witness:
  "os_listdir store2 (directory manager) = Inr [''idea241025154736.md'', ''todo.md'', ''readme.txt'']
   \<and> load_all_ideas pyyaml manager store2
       = collect (map (\<lambda>n. from_markdown pyyaml store2 (os_path_join (directory manager) n))
                      (filter (\<lambda>n. endswith n ''.md'')
                         [''idea241025154736.md'', ''todo.md'', ''readme.txt'']))
   \<and> load_all_ideas pyyaml manager store2 = Inr [idea1, idea2]
   \<and> from_markdown pyyaml store2 (os_path_join (directory manager) ''todo.md'') = Inr idea2"
proof -
  have "filter (\<lambda>n. endswith n ''.md'') [''idea241025154736.md'', ''todo.md'', ''readme.txt'']
          = [''idea241025154736.md'', ''todo.md'']"
    by code_simp
  with listdir_store2 load_all_store2
    load_all_ideas_reads_every_md_entry [OF listdir_store2, of pyyaml]
  have "from_markdown pyyaml store2
          (os_path_join (directory manager) ([''idea241025154736.md'', ''todo.md''] ! 1))
          = Inr ([idea1, idea2] ! 1)"
    by (metis One_nat_def length_Cons lessI list.size(3))
  with listdir_store2 load_all_store2
    load_all_ideas_reads_every_md_entry [OF listdir_store2, of pyyaml]
  show ?thesis by simp
qed

text \<open>
  C8 as stated fails: \<^verbatim>\<open>todo.md\<close> does not have the form \<^verbatim>\<open>idea<id>.md\<close>, and the
  listing returns its record beside the record of \<^verbatim>\<open>idea241025154736.md\<close>.
\<close>

theorem other_md_files_are_listed:
  "os_listdir store2 (directory manager) = Inr [''idea241025154736.md'', ''todo.md'', ''readme.txt'']
   \<and> idea_file_name ''idea241025154736.md''
   \<and> \<not> idea_file_name ''todo.md''
   \<and> load_all_ideas pyyaml manager store2 = Inr [idea1, idea2]"
proof -
  have a: "idea_file_name ''idea241025154736.md''" by code_simp
  have b: "\<not> idea_file_name ''todo.md''" by code_simp
  from listdir_store2 a b load_all_store2 show ?thesis by simp
qed

section \<open>A marker inside the metadata\<close>

text \<open>
  C1 fails on the code.  \<^verbatim>\<open>from_markdown\<close> cuts the text at the first two \<^verbatim>\<open>---\<close>,
  wherever they stand.  The title \<^verbatim>\<open>a---b\<close> is written as it is, so the second cut
  falls inside the title: the record read back has the title \<^verbatim>\<open>a\<close>, and its content
  starts with the rest of the title and the closing marker.
\<close>

theorem marker_in_title_breaks_round_trip:
  "to_markdown pyyaml marked
     = ''---\<newline>id: 241025154736\<newline>modified: 241025154736\<newline>tags: []\<newline>title: a---b\<newline>---\<newline>\<newline>C''
   \<and> from_markdown_text pyyaml (to_markdown pyyaml marked)
     = Inr \<lparr>id' = 241025154736, title = PStr ''a'', modified = 241025154736, tags = PList [],
            content = ''b\<newline>---\<newline>\<newline>C''\<rparr>"
  by code_simp

text \<open>
  C3 fails on the code for the same reason.  \<^verbatim>\<open>create_new_idea\<close> returns the record
  with the title \<^verbatim>\<open>a---b\<close> and the content \<^verbatim>\<open>C\<close>; loading its id from the store returns
  a record with the title \<^verbatim>\<open>a\<close> and another content.
\<close>

theorem create_then_load_loses_title_after_marker:
  "create_new_idea pyyaml manager clock0 ''a---b'' [] ''C'' store0 = Inr (marked, store_marked)
   \<and> load_idea_by_id pyyaml manager store_marked (id' marked)
     = Inr (Some \<lparr>id' = 241025154736, title = PStr ''a'', modified = 241025154736,
                  tags = PList [], content = ''b\<newline>---\<newline>\<newline>C''\<rparr>)"
  by code_simp

section \<open>Updating a record\<close>

text \<open>
  C4, as the code has it.  Let the file of an id load as a record that carries this id,
  and let its \<open>modified = m0\<close> be the timestamp of a clock reading.  When
  \<^verbatim>\<open>update_idea(id, title="New")\<close> runs at a reading of the clock that lies in a later
  second of the same century, it succeeds, and the file of the id then holds the text
  of a record whose \<open>modified\<close> is above \<open>m0\<close>, whose title is \<^verbatim>\<open>"New"\<close>, and whose
  tags, content and id are those loaded; no other path changes.
\<close>

theorem update_title_bumps_modified:
  assumes "load_idea_by_id Y self fs idea_id = Inr (Some idea)"
      and "id' idea = idea_id"
      and "modified idea = generate_timestamp before"
      and "valid_datetime before" and "valid_datetime now"
      and "same_century before now"
      and "later_second before now"
  shows "\<exists>fs' idea'.
           update_idea Y self now idea_id (Some ''New'') None None fs = Inr (True, fs')
         \<and> lookup fs' (get_idea_file_path self idea_id) = Some (File (to_markdown Y idea'))
         \<and> modified idea < modified idea'
         \<and> title idea' = PStr ''New''
         \<and> tags idea' = tags idea
         \<and> content idea' = content idea
         \<and> id' idea' = id' idea
         \<and> (\<forall>p. p \<noteq> get_idea_file_path self idea_id \<longrightarrow> lookup fs' p = lookup fs p)"
proof -
  let ?new = "update_fields (Some ''New'') None None (generate_timestamp now) idea"
  let ?p = "get_idea_file_path self idea_id"
  have u: "update_idea Y self now idea_id (Some ''New'') None None fs
             = Inr (True, AList.update ?p (File (to_markdown Y ?new)) fs)"
    using assms(1,2) by (rule update_existing)
  have f: "\<forall>q. lookup (AList.update ?p (File (to_markdown Y ?new)) fs) q
             = (if q = ?p then Some (File (to_markdown Y ?new)) else lookup fs q)"
    by (simp add: lookup_update get_idea_file_path_nonempty)
  from timestamp_later_second [OF assms(4-7)] assms(3)
  have "modified idea < modified ?new" by simp
  moreover have "title ?new = PStr ''New''" by (simp add: update_fields_title)
  moreover have "tags ?new = tags idea" by (simp add: update_fields_tags)
  moreover have "content ?new = content idea" by (simp add: update_fields_content)
  moreover have "id' ?new = id' idea" by simp
  ultimately show ?thesis
    using u f
    by (intro exI [of _ "AList.update ?p (File (to_markdown Y ?new)) fs"] exI [of _ ?new]) simp
qed

theorem update_title_bumps_modified_witness:
  "load_idea_by_id pyyaml manager store1 241025154736 = Inr (Some idea1)
   \<and> id' idea1 = 241025154736
   \<and> modified idea1 = generate_timestamp clock0
   \<and> valid_datetime clock0 \<and> valid_datetime clock1
   \<and> same_century clock0 clock1
   \<and> later_second clock0 clock1
   \<and> (\<exists>fs' idea'.
           update_idea pyyaml manager clock1 241025154736 (Some ''New'') None None store1 = Inr (True, fs')
         \<and> lookup fs' (get_idea_file_path manager 241025154736) = Some (File (to_markdown pyyaml idea'))
         \<and> modified idea1 < modified idea'
         \<and> title idea' = PStr ''New''
         \<and> tags idea' = tags idea1
         \<and> content idea' = content idea1
         \<and> id' idea' = id' idea1
         \<and> (\<forall>p. p \<noteq> get_idea_file_path manager 241025154736 \<longrightarrow> lookup fs' p = lookup store1 p))"
  using update_title_bumps_modified [OF load_store1 idea1_id idea1_modified clock0_valid
      clock1_valid clock0_clock1_same_century clock0_clock1_later_second]
    load_store1 idea1_id idea1_modified clock0_valid clock1_valid clock0_clock1_same_century
    clock0_clock1_later_second
  by blast

text \<open>
  C4 as stated fails in two ways.  The timestamp counts whole seconds: the record
  written at 15:47:36 and updated half a second later keeps \<open>modified = 241025154736\<close>.
  And it counts the year with two digits: the record written in the last second of
  2099 and updated in the first second of 2100 gets \<open>modified = 101000000\<close>, below the
  \<open>991231235959\<close> it had.
\<close>

theorem later_update_need_not_raise_modified:
  "later clock0 clock0_half
   \<and> load_idea_by_id pyyaml manager store_T 241025154736 = Inr (Some created_T)
   \<and> modified created_T = generate_timestamp clock0
   \<and> update_idea pyyaml manager clock0_half 241025154736 (Some ''New'') None None store_T
       = Inr (True, store_T_renamed)
   \<and> load_idea_by_id pyyaml manager store_T_renamed 241025154736
       = Inr (Some \<lparr>id' = 241025154736, title = PStr ''New'', modified = 241025154736,
                    tags = PList [PStr ''a''], content = ''C''\<rparr>)
   \<and> later clock_2099 clock_2100
   \<and> load_idea_by_id pyyaml manager store_2099 991231235959 = Inr (Some created_2099)
   \<and> modified created_2099 = generate_timestamp clock_2099
   \<and> update_idea pyyaml manager clock_2100 991231235959 (Some ''New'') None None store_2099
       = Inr (True, store_2100)
   \<and> load_idea_by_id pyyaml manager store_2100 991231235959
       = Inr (Some \<lparr>id' = 991231235959, title = PStr ''New'', modified = 101000000,
                    tags = PList [PStr ''a''], content = ''C''\<rparr>)"
proof -
  have a: "later clock0 clock0_half"
    by (simp add: later_def to_second_def clock0_def clock0_half_def)
  have b: "modified created_T = generate_timestamp clock0"
    by (simp add: created_T_def clock0_stamp)
  have c: "later clock_2099 clock_2100"
    by (simp add: later_def to_second_def clock_2099_def clock_2100_def)
  have d: "modified created_2099 = generate_timestamp clock_2099"
    by (simp add: created_2099_def generate_timestamp_def clock_2099_def)
  from a b c d load_T update_T_in_the_same_second load_T_renamed load_2099 update_2100 load_2100
  show ?thesis by (simp add: created_T_def created_2099_def)
qed

section \<open>Texts that the parser rejects\<close>




section \<open>The modification time and the id\<close>

text \<open>
  C9, as the code has it.  After a successful \<^verbatim>\<open>create_new_idea\<close> and any number of
  successful calls of \<^verbatim>\<open>update_idea\<close> for the id it gave, under a clock that does not
  run backwards and stays in the century of the creation, the file of the id holds
  the text of a record with this id whose \<open>modified\<close> is not below its \<open>id\<close>:
  \<^verbatim>\<open>create_new_idea\<close> writes both as the timestamp of its clock reading, and each update
  keeps the id and writes the timestamp of its own clock reading as \<open>modified\<close>.
\<close>

theorem modified_never_before_id:
  assumes "reachable Y self now fs idea_id"
  shows "\<exists>idea. lookup fs (get_idea_file_path self idea_id) = Some (File (to_markdown Y idea))
              \<and> id' idea = idea_id
              \<and> id' idea \<le> modified idea
              \<and> modified idea = generate_timestamp now"
  using assms
proof (induction rule: reachable.induct)
  case (created now title_arg tags_arg content_arg fs idea fs')
  from create_writes [OF created(2)] create_returns(1,2) [OF created(2)]
  show ?case by auto
next
  case (updated before fs idea_id now loaded title_arg tags_arg content_arg fs')
  let ?new = "update_fields title_arg tags_arg content_arg (generate_timestamp now) loaded"
  let ?p = "get_idea_file_path self idea_id"
  from updated.IH obtain old :: Idea
    where old: "id' old = idea_id" "id' old \<le> modified old"
      "modified old = generate_timestamp before"
    by blast
  from reachable_valid [OF updated.hyps(1)] updated.hyps(2-4)
  have "generate_timestamp before \<le> generate_timestamp now"
    by (rule timestamp_not_earlier)
  with old have order: "idea_id \<le> generate_timestamp now" by simp
  from update_existing [OF updated.hyps(5,6), of now title_arg tags_arg content_arg]
    updated.hyps(7)
  have "fs' = AList.update ?p (File (to_markdown Y ?new)) fs" by simp
  then have "lookup fs' ?p = Some (File (to_markdown Y ?new))"
    by (simp add: lookup_update get_idea_file_path_nonempty)
  moreover have "id' ?new = idea_id" using updated.hyps(6) by simp
  moreover have "id' ?new \<le> modified ?new" using updated.hyps(6) order by simp
  moreover have "modified ?new = generate_timestamp now" by simp
  ultimately show ?case by blast
qed

theorem modified_never_before_id_witness:
  "reachable pyyaml manager clock1 store_T_updated 241025154736
   \<and> (\<exists>idea. lookup store_T_updated (get_idea_file_path manager 241025154736)
                = Some (File (to_markdown pyyaml idea))
            \<and> id' idea = 241025154736
            \<and> id' idea \<le> modified idea
            \<and> modified idea = generate_timestamp clock1)
   \<and> load_idea_by_id pyyaml manager store_T_updated 241025154736
       = Inr (Some \<lparr>id' = 241025154736, title = PStr ''New'', modified = 241026093000,
                    tags = PList [PStr ''a''], content = ''C''\<rparr>)"
proof -
  have i: "id' created_T = 241025154736" by (simp add: created_T_def)
  from reachable.created [OF clock0_valid create_T]
  have c: "reachable pyyaml manager clock0 store_T 241025154736" by (simp add: i)
  from reachable.updated [OF c clock1_valid clock0_clock1_same_century clock1_not_before_clock0
      load_T i update_T_at_clock1]
  have r: "reachable pyyaml manager clock1 store_T_updated 241025154736" .
  from modified_never_before_id [OF r] r load_T_updated show ?thesis
    by (simp add: created_T_def)
qed

text \<open>
  C9 as stated fails when the clock, running forwards, enters a new century.  The
  record created in the last second of 2099 has the id \<open>991231235959\<close>; updated in the
  first second of 2100 it is stored with \<open>modified = 101000000\<close>, below its id.
\<close>

theorem modified_before_id_after_the_century:
  "valid_datetime clock_2099 \<and> valid_datetime clock_2100
   \<and> later clock_2099 clock_2100
   \<and> create_new_idea pyyaml manager clock_2099 ''T'' [''a''] ''C'' store0
       = Inr (\<lparr>id' = 991231235959, title = PStr ''T'', modified = 991231235959,
               tags = PList [PStr ''a''], content = ''C''\<rparr>, store_2099)
   \<and> update_idea pyyaml manager clock_2100 991231235959 (Some ''New'') None None store_2099
       = Inr (True, store_2100)
   \<and> load_idea_by_id pyyaml manager store_2100 991231235959
       = Inr (Some \<lparr>id' = 991231235959, title = PStr ''New'', modified = 101000000,
                    tags = PList [PStr ''a''], content = ''C''\<rparr>)
   \<and> (101000000 :: int) < 991231235959"
proof -
  have "later clock_2099 clock_2100"
    by (simp add: later_def to_second_def clock_2099_def clock_2100_def)
  with clock_2099_valid clock_2100_valid create_2099 update_2100 load_2100 show ?thesis
    by (simp add: created_2099_def)
qed

end
